theory Spec2Isabelle
  imports Main "HOL-Library.AList"
begin

section \<open>Python values and exceptions\<close>

text \<open>
  The functions of \<^verbatim>\<open>promptlayer\<close> are dynamically typed: \<^verbatim>\<open>track.score\<close> is handed
  any object and inspects it with \<^verbatim>\<open>isinstance\<close>.  The values that reach them are
  the JSON-like built-in types and langchain's \<^verbatim>\<open>PromptTemplate\<close>.  A dictionary is an
  association list in insertion order; a \<^verbatim>\<open>PromptTemplate\<close> object is carried as the
  dictionary its \<^verbatim>\<open>.dict()\<close> method returns.  A float is kept as mantissa and
  exponent; no function of the package computes with one.
\<close>

datatype pyval =
    PNone
  | PBool bool
  | PInt int
  | PFloat int int
  | PStr string
  | PList "pyval list"
  | PDict "(pyval \<times> pyval) list"
  | PPromptTemplate "(pyval \<times> pyval) list"

text \<open>
  \<^verbatim>\<open>Exception msg\<close> is what the package raises itself (\<^verbatim>\<open>raise Exception("...")\<close>);
  \<^verbatim>\<open>KeyError\<close> and \<^verbatim>\<open>TypeError\<close> and \<^verbatim>\<open>IndexError\<close> come from subscripting;
  \<^verbatim>\<open>ForeignError\<close> stands for whatever the wrapped API, langchain or the HTTP helpers
  raise.
\<close>

datatype error =
    Exception string
  | KeyError pyval
  | TypeError
  | IndexError
  | ForeignError string

text \<open>
  \<^verbatim>\<open>isinstance(x, int)\<close> holds for \<^verbatim>\<open>bool\<close> too: in Python \<^verbatim>\<open>bool\<close> is a subclass
  of \<^verbatim>\<open>int\<close>, with \<^verbatim>\<open>True == 1\<close> and \<^verbatim>\<open>False == 0\<close>.
\<close>

fun isinstance_int :: "pyval \<Rightarrow> bool" where
  "isinstance_int (PInt n) = True"
| "isinstance_int (PBool b) = True"
| "isinstance_int v = False"

fun isinstance_str :: "pyval \<Rightarrow> bool" where
  "isinstance_str (PStr s) = True"
| "isinstance_str v = False"

fun isinstance_dict :: "pyval \<Rightarrow> bool" where
  "isinstance_dict (PDict d) = True"
| "isinstance_dict v = False"

text \<open>The number an \<^verbatim>\<open>int\<close> instance compares as; only read after \<open>isinstance_int\<close>.\<close>

fun int_value :: "pyval \<Rightarrow> int" where
  "int_value (PInt n) = n"
| "int_value (PBool b) = (if b then 1 else 0)"
| "int_value v = 0"

text \<open>
  \<^verbatim>\<open>obj[key]\<close>, \<^verbatim>\<open>key in obj\<close> and \<^verbatim>\<open>obj[key] = v\<close> for a \<^verbatim>\<open>str\<close> key, the only
  subscripts the package writes.  Reading a missing key raises \<^verbatim>\<open>KeyError\<close>;
  subscripting anything but a dictionary with a string raises \<^verbatim>\<open>TypeError\<close>.
  A new key goes to the end of the dictionary, an existing key keeps its place.
\<close>

fun py_getitem :: "pyval \<Rightarrow> string \<Rightarrow> error + pyval" where
  "py_getitem (PDict d) key =
     (case map_of d (PStr key) of
        None \<Rightarrow> Inl (KeyError (PStr key))
      | Some v \<Rightarrow> Inr v)"
| "py_getitem obj key = Inl TypeError"

fun py_setitem :: "pyval \<Rightarrow> string \<Rightarrow> pyval \<Rightarrow> error + pyval" where
  "py_setitem (PDict d) key v = Inr (PDict (AList.update (PStr key) v d))"
| "py_setitem obj key v = Inl TypeError"

text \<open>\<^verbatim>\<open>key in s\<close> on a string is the substring test.\<close>

fun is_substring :: "string \<Rightarrow> string \<Rightarrow> bool" where
  "is_substring key [] = (key = [])"
| "is_substring key (c # s) = (take (length key) (c # s) = key \<or> is_substring key s)"

fun py_contains :: "string \<Rightarrow> pyval \<Rightarrow> error + bool" where
  "py_contains key (PDict d) = Inr (PStr key \<in> set (map fst d))"
| "py_contains key (PList xs) = Inr (PStr key \<in> set xs)"
| "py_contains key (PStr s) = Inr (is_substring key s)"
| "py_contains key obj = Inl TypeError"


section \<open>The helpers of \<^verbatim>\<open>promptlayer.utils\<close>\<close>

text \<open>
  \<^verbatim>\<open>promptlayer/utils.py\<close> is imported by every module below and is not part of the
  sources at hand.  Each of its helpers performs one request to the PromptLayer
  service.  The model keeps a log of the helper calls made so far, in order, and takes
  what a helper answers as a parameter: \<open>utils log call\<close> is the exception the helper
  raises or the value it returns when \<open>call\<close> is made after \<open>log\<close>.

  \<open>call_event\<close> holds the arguments of \<^verbatim>\<open>promptlayer_api_request\<close> in the order the
  adapters pass them.
\<close>

record call_event =
  ev_function_name :: string
  ev_provider_type :: string
  ev_args :: pyval
  ev_kwargs :: pyval
  ev_tags :: pyval
  ev_response :: pyval
  ev_request_start_time :: pyval
  ev_request_end_time :: pyval
  ev_usage :: pyval
  ev_metadata :: pyval
  ev_return_pl_id :: pyval

datatype util_call =
    ApiRequest call_event
  | ApiRequestAsync call_event
  | TrackPrompt pyval pyval pyval
  | TrackMetadata pyval pyval
  | TrackScore pyval pyval
  | GetPrompt pyval pyval
  | PublishPrompt pyval pyval pyval

type_synonym log = "util_call list"

type_synonym utils = "log \<Rightarrow> util_call \<Rightarrow> error + pyval"

definition promptlayer_track_prompt ::
  "utils \<Rightarrow> pyval \<Rightarrow> pyval \<Rightarrow> pyval \<Rightarrow> log \<Rightarrow> (error + pyval) \<times> log" where
  "promptlayer_track_prompt utils request_id prompt_template_id version log =
     (utils log (TrackPrompt request_id prompt_template_id version),
      log @ [TrackPrompt request_id prompt_template_id version])"

definition promptlayer_track_metadata ::
  "utils \<Rightarrow> pyval \<Rightarrow> pyval \<Rightarrow> log \<Rightarrow> (error + pyval) \<times> log" where
  "promptlayer_track_metadata utils request_id metadata log =
     (utils log (TrackMetadata request_id metadata),
      log @ [TrackMetadata request_id metadata])"

definition promptlayer_track_score ::
  "utils \<Rightarrow> pyval \<Rightarrow> pyval \<Rightarrow> log \<Rightarrow> (error + pyval) \<times> log" where
  "promptlayer_track_score utils request_id score log =
     (utils log (TrackScore request_id score),
      log @ [TrackScore request_id score])"

definition promptlayer_get_prompt ::
  "utils \<Rightarrow> pyval \<Rightarrow> pyval \<Rightarrow> log \<Rightarrow> (error + pyval) \<times> log" where
  "promptlayer_get_prompt utils prompt_name version log =
     (utils log (GetPrompt prompt_name version),
      log @ [GetPrompt prompt_name version])"

definition promptlayer_publish_prompt ::
  "utils \<Rightarrow> pyval \<Rightarrow> pyval \<Rightarrow> pyval \<Rightarrow> log \<Rightarrow> (error + pyval) \<times> log" where
  "promptlayer_publish_prompt utils prompt_name prompt_template tags log =
     (utils log (PublishPrompt prompt_name prompt_template tags),
      log @ [PublishPrompt prompt_name prompt_template tags])"


section \<open>\<^verbatim>\<open>promptlayer/track/track.py\<close>\<close>

text \<open>
  \<^verbatim>\<open>prompt\<close>: the check on the input variables is commented out in the source, and the
  parameter it tested is no longer in the signature; the body is the helper call alone.
\<close>

definition track_prompt ::
  "utils \<Rightarrow> pyval \<Rightarrow> pyval \<Rightarrow> pyval \<Rightarrow> log \<Rightarrow> (error + pyval) \<times> log" where
  "track_prompt utils request_id prompt_template_id version log =
     promptlayer_track_prompt utils request_id prompt_template_id version log"

text \<open>The \<^verbatim>\<open>for key, value in metadata.items()\<close> loop: the first bad pair raises.\<close>

fun metadata_items_check :: "(pyval \<times> pyval) list \<Rightarrow> error option" where
  "metadata_items_check [] = None"
| "metadata_items_check ((key, v) # items) =
     (if \<not> isinstance_str key \<or> \<not> isinstance_str v
      then Some (Exception
        ''Please provide a dictionary of metadata with key value pair of strings.'')
      else metadata_items_check items)"

fun track_metadata ::
  "utils \<Rightarrow> pyval \<Rightarrow> pyval \<Rightarrow> log \<Rightarrow> (error + pyval) \<times> log" where
  "track_metadata utils request_id (PDict items) log =
     (case metadata_items_check items of
        Some e \<Rightarrow> (Inl e, log)
      | None \<Rightarrow> promptlayer_track_metadata utils request_id (PDict items) log)"
| "track_metadata utils request_id metadata log =
     (Inl (Exception ''Please provide a dictionary of metadata.''), log)"

definition track_score ::
  "utils \<Rightarrow> pyval \<Rightarrow> pyval \<Rightarrow> log \<Rightarrow> (error + pyval) \<times> log" where
  "track_score utils request_id score log =
     (if \<not> isinstance_int score
      then (Inl (Exception ''Please provide a int score.''), log)
      else if int_value score < 0 \<or> int_value score > 100
      then (Inl (Exception ''Please provide a score between 0 and 100.''), log)
      else promptlayer_track_score utils request_id score log)"


section \<open>\<^verbatim>\<open>promptlayer/prompts/prompts.py\<close>\<close>

text \<open>
  \<^verbatim>\<open>get_prompt\<close>.  \<open>load_prompt_from_config\<close> is langchain's loader, a parameter.  The
  assignment \<^verbatim>\<open>prompt["prompt_template"]["_type"] = "prompt"\<close> changes the dictionary
  stored inside \<^verbatim>\<open>prompt\<close>, which the next line reads again.
\<close>

definition get_prompt ::
  "utils \<Rightarrow> (pyval \<Rightarrow> error + pyval) \<Rightarrow> pyval \<Rightarrow> bool \<Rightarrow> pyval \<Rightarrow> log
     \<Rightarrow> (error + pyval) \<times> log" where
  "get_prompt utils load_prompt_from_config prompt_name langchain version log =
     (case promptlayer_get_prompt utils prompt_name version log of
        (Inl e, log') \<Rightarrow> (Inl e, log')
      | (Inr prompt, log') \<Rightarrow>
          (if langchain then
             (case py_getitem prompt ''prompt_template'' of
                Inl e \<Rightarrow> (Inl e, log')
              | Inr template \<Rightarrow>
                  (case py_contains ''_type'' template of
                     Inl e \<Rightarrow> (Inl e, log')
                   | Inr True \<Rightarrow> (load_prompt_from_config template, log')
                   | Inr False \<Rightarrow>
                       (case py_setitem template ''_type'' (PStr ''prompt'') of
                          Inl e \<Rightarrow> (Inl e, log')
                        | Inr template' \<Rightarrow>
                            (case py_setitem prompt ''prompt_template'' template' of
                               Inl e \<Rightarrow> (Inl e, log')
                             | Inr prompt' \<Rightarrow>
                                 (case py_getitem prompt' ''prompt_template'' of
                                    Inl e \<Rightarrow> (Inl e, log')
                                  | Inr t \<Rightarrow> (load_prompt_from_config t, log'))))))
           else (py_getitem prompt ''prompt_template'', log')))"

text \<open>
  \<^verbatim>\<open>publish_prompt\<close> has no \<^verbatim>\<open>return\<close>: it yields \<^verbatim>\<open>None\<close> once the helper has
  returned, and lets the helper's exception through.
\<close>

fun publish_prompt ::
  "utils \<Rightarrow> pyval \<Rightarrow> pyval \<Rightarrow> pyval \<Rightarrow> log \<Rightarrow> (error + pyval) \<times> log" where
  "publish_prompt utils prompt_name tags (PDict prompt_template) log =
     (case promptlayer_publish_prompt utils prompt_name (PDict prompt_template) tags log of
        (Inl e, log') \<Rightarrow> (Inl e, log')
      | (Inr ack, log') \<Rightarrow> (Inr PNone, log'))"
| "publish_prompt utils prompt_name tags (PPromptTemplate template_dict) log =
     (case promptlayer_publish_prompt utils prompt_name (PDict template_dict) tags log of
        (Inl e, log') \<Rightarrow> (Inl e, log')
      | (Inr ack, log') \<Rightarrow> (Inr PNone, log'))"
| "publish_prompt utils prompt_name tags prompt_template log =
     (Inl (Exception
        ''Please provide either a JSON prompt template or a langchain prompt template.''),
      log)"


section \<open>The langchain adapters\<close>

text \<open>
  The adapters change objects they did not create: \<^verbatim>\<open>generation.generation_info = {}\<close>
  rebinds an attribute of a \<^verbatim>\<open>Generation\<close> object, and
  \<^verbatim>\<open>generation.generation_info["pl_request_id"] = ...\<close> writes into a dictionary object,
  which other generations may reference too.  Objects therefore live in a store and are
  named by their address; the same address may occur at several places of a result.

  A value that may be a shared dictionary is an \<open>info\<close>: \<open>Ref d\<close> is the dictionary object
  at address \<open>d\<close> of the store, \<open>Val v\<close> is any other value, among them \<^verbatim>\<open>None\<close> and a
  dictionary that nothing else references.  The values stored inside a dictionary are
  kept by value.
\<close>

type_synonym addr = nat

datatype info = Ref addr | Val pyval

text \<open>
  What the adapters read of langchain's objects.  \<^verbatim>\<open>Generation\<close> has the fields
  \<^verbatim>\<open>text\<close> (named \<open>gen_text\<close> here) and \<^verbatim>\<open>generation_info\<close>, \<^verbatim>\<open>ChatGeneration\<close> extends it
  with \<^verbatim>\<open>message\<close>.  \<^verbatim>\<open>LLMResult.generations\<close> is a list of lists of generations (one
  list per prompt), \<^verbatim>\<open>ChatResult.generations\<close> a list of generations; both results carry
  \<^verbatim>\<open>llm_output\<close>.  The lists are never written, so they are lists of addresses.
\<close>

record generation =
  gen_text :: string
  generation_info :: info

record chat_generation = generation +
  message :: pyval

record 'g heap =
  objects :: "addr \<Rightarrow> 'g"
  dicts :: "addr \<Rightarrow> (pyval \<times> pyval) list"

record 'r result =
  generations :: 'r
  llm_output :: info

type_synonym llm_result = "addr list list result"

type_synonym chat_result = "addr list result"

text \<open>\<^verbatim>\<open>obj[key]\<close> where \<open>obj\<close> may be a dictionary of the store.\<close>

definition info_getitem :: "'g heap \<Rightarrow> info \<Rightarrow> string \<Rightarrow> error + pyval" where
  "info_getitem h i key =
     (case i of
        Ref d \<Rightarrow> py_getitem (PDict (dicts h d)) key
      | Val v \<Rightarrow> py_getitem v key)"

text \<open>
  The attributes both adapter classes declare, with their annotated types
  (\<^verbatim>\<open>list[str] | None\<close>, \<^verbatim>\<open>str | None\<close>, \<^verbatim>\<open>bool | None\<close>), and the inherited
  \<^verbatim>\<open>_identifying_params\<close> that the completion adapter passes on.
\<close>

record adapter =
  pl_tags :: "string list option"
  pl_project :: "string option"
  return_pl_id :: "bool option"
  identifying_params :: pyval

definition tags_value :: "string list option \<Rightarrow> pyval" where
  "tags_value ts = (case ts of None \<Rightarrow> PNone | Some xs \<Rightarrow> PList (map PStr xs))"

definition flag_value :: "bool option \<Rightarrow> pyval" where
  "flag_value b = (case b of None \<Rightarrow> PNone | Some x \<Rightarrow> PBool x)"

text \<open>
  The expression \<^verbatim>\<open>{ "project": self.pl_project if self.pl_project else None }\<close>:
  \<^verbatim>\<open>None\<close> and the empty string are both falsy.
\<close>

definition project_metadata :: "string option \<Rightarrow> pyval" where
  "project_metadata project =
     PDict [(PStr ''project'',
       (case project of
          None \<Rightarrow> PNone
        | Some s \<Rightarrow> if s \<noteq> [] then PStr s else PNone))]"

text \<open>
  The test \<^verbatim>\<open>generation_info is None or not isinstance(generation_info, dict)\<close>, and
  the items of a dictionary held by value.
\<close>

fun none_or_not_dict :: "info \<Rightarrow> bool" where
  "none_or_not_dict (Ref d) = False"
| "none_or_not_dict (Val v) = (v = PNone \<or> \<not> isinstance_dict v)"

fun dict_items :: "pyval \<Rightarrow> (pyval \<times> pyval) list" where
  "dict_items (PDict items) = items"
| "dict_items v = []"

text \<open>
  The body of \<^verbatim>\<open>if self.return_pl_id:\<close> for the generation at address \<open>a\<close>.  A
  \<^verbatim>\<open>generation_info\<close> that is \<^verbatim>\<open>None\<close> or not a dictionary is replaced, in that object, by a
  new empty dictionary.  Then the key is set in the dictionary the attribute now
  denotes: in the store when it is a dictionary of the store, so that every object
  referencing it sees the entry, and in the object otherwise.
\<close>

definition set_pl_request_id ::
  "'a generation_scheme heap \<Rightarrow> addr \<Rightarrow> pyval \<Rightarrow> 'a generation_scheme heap" where
  "set_pl_request_id h a pl_request_id =
     (case generation_info (objects h a) of
        Ref d \<Rightarrow>
          h\<lparr> dicts := (dicts h)
               (d := AList.update (PStr ''pl_request_id'') pl_request_id (dicts h d)) \<rparr>
      | Val v \<Rightarrow>
          h\<lparr> objects := (objects h)
               (a := (objects h a)\<lparr> generation_info :=
                  Val (PDict (AList.update (PStr ''pl_request_id'') pl_request_id
                    (if none_or_not_dict (Val v) then [] else dict_items v))) \<rparr>) \<rparr>)"

text \<open>
  \<^verbatim>\<open>promptlayer_api_request\<close> and \<^verbatim>\<open>promptlayer_api_request_async\<close> live in
  \<^verbatim>\<open>promptlayer/utils.py\<close>, which is missing.  As the adapters see it, a reporting call is
  given the event, after the calls made so far, and returns a value or raises.
\<close>

type_synonym api_request = "log \<Rightarrow> call_event \<Rightarrow> error + pyval"

type_synonym create_message_dicts = "pyval list \<Rightarrow> pyval \<Rightarrow> pyval \<times> pyval"

subsection \<open>\<^verbatim>\<open>PromptLayerChatOpenAI\<close>\<close>

text \<open>
  The \<^verbatim>\<open>for i, generation in enumerate(generated_responses.generations)\<close> loop of
  \<^verbatim>\<open>_generate\<close>, over the addresses of the generations.  \<open>cmd\<close> is the inherited
  \<^verbatim>\<open>_create_message_dicts\<close>, langchain's, taken as a function that returns its pair;
  \<open>t0\<close> and \<open>t1\<close> are the two clock readings.  The \<open>params\<close> passed on are those of the
  call inside the loop, which rebinds the name.  The loop yields the exception that ended
  it, if one did, with the store and the log as it leaves them.  Nothing in the method
  catches an exception, be it of the subscript or of the reporting call.
\<close>

fun chat_generate_loop ::
  "adapter \<Rightarrow> api_request \<Rightarrow> create_message_dicts \<Rightarrow> pyval \<Rightarrow> pyval \<Rightarrow> info \<Rightarrow> pyval \<Rightarrow> pyval
     \<Rightarrow> addr list \<Rightarrow> chat_generation heap \<Rightarrow> log
     \<Rightarrow> error option \<times> chat_generation heap \<times> log" where
  "chat_generate_loop self promptlayer_api_request cmd message_dicts stop out t0 t1 [] h log =
     (None, h, log)"
| "chat_generate_loop self promptlayer_api_request cmd message_dicts stop out t0 t1
       (a # rest) h log =
     (case cmd [message (objects h a)] stop of (response_dict, params) \<Rightarrow>
      (case info_getitem h out ''token_usage'' of
         Inl e \<Rightarrow> (Some e, h, log)
       | Inr request_usage \<Rightarrow>
           (let ev = \<lparr> ev_function_name = ''langchain.PromptLayerChatOpenAI'',
                       ev_provider_type = ''langchain'',
                       ev_args = message_dicts,
                       ev_kwargs = params,
                       ev_tags = tags_value (pl_tags self),
                       ev_response = response_dict,
                       ev_request_start_time = t0,
                       ev_request_end_time = t1,
                       ev_usage = request_usage,
                       ev_metadata = project_metadata (pl_project self),
                       ev_return_pl_id = flag_value (return_pl_id self) \<rparr>
            in (case promptlayer_api_request log ev of
                  Inl e \<Rightarrow> (Some e, h, log @ [ApiRequest ev])
                | Inr pl_request_id \<Rightarrow>
                    chat_generate_loop self promptlayer_api_request cmd message_dicts stop out
                      t0 t1 rest
                      (if return_pl_id self = Some True
                       then set_pl_request_id h a pl_request_id else h)
                      (log @ [ApiRequest ev])))))"

text \<open>
  \<^verbatim>\<open>_generate\<close>: \<open>super_generate\<close> is \<^verbatim>\<open>ChatOpenAI._generate\<close>, the wrapped call, which
  builds its result in the store; what it raises is not caught.  The method returns the
  object the wrapped call returned.
\<close>

definition chat_generate ::
  "adapter \<Rightarrow> api_request \<Rightarrow> create_message_dicts
     \<Rightarrow> (pyval list \<Rightarrow> pyval \<Rightarrow> chat_generation heap
          \<Rightarrow> (error + chat_result) \<times> chat_generation heap)
     \<Rightarrow> pyval \<Rightarrow> pyval \<Rightarrow> pyval list \<Rightarrow> pyval \<Rightarrow> chat_generation heap \<Rightarrow> log
     \<Rightarrow> (error + chat_result) \<times> chat_generation heap \<times> log" where
  "chat_generate self promptlayer_api_request cmd super_generate t0 t1 messages stop h log =
     (case super_generate messages stop h of
        (Inl e, h1) \<Rightarrow> (Inl e, h1, log)
      | (Inr generated_responses, h1) \<Rightarrow>
          (case cmd messages stop of (message_dicts, params) \<Rightarrow>
           (case chat_generate_loop self promptlayer_api_request cmd message_dicts stop
                   (llm_output generated_responses) t0 t1
                   (generations generated_responses) h1 log of
              (Some e, h2, log') \<Rightarrow> (Inl e, h2, log')
            | (None, h2, log') \<Rightarrow> (Inr generated_responses, h2, log'))))"

text \<open>
  The loop of \<^verbatim>\<open>_agenerate\<close>.  Each \<^verbatim>\<open>await\<close> is completed before the next statement
  runs, so the coroutine is the same sequence of steps, with
  \<^verbatim>\<open>promptlayer_api_request_async\<close> as the helper.
\<close>

fun chat_agenerate_loop ::
  "adapter \<Rightarrow> api_request \<Rightarrow> create_message_dicts \<Rightarrow> pyval \<Rightarrow> pyval \<Rightarrow> info \<Rightarrow> pyval \<Rightarrow> pyval
     \<Rightarrow> addr list \<Rightarrow> chat_generation heap \<Rightarrow> log
     \<Rightarrow> error option \<times> chat_generation heap \<times> log" where
  "chat_agenerate_loop self promptlayer_api_request_async cmd message_dicts stop out t0 t1
       [] h log =
     (None, h, log)"
| "chat_agenerate_loop self promptlayer_api_request_async cmd message_dicts stop out t0 t1
       (a # rest) h log =
     (case cmd [message (objects h a)] stop of (response_dict, params) \<Rightarrow>
      (case info_getitem h out ''token_usage'' of
         Inl e \<Rightarrow> (Some e, h, log)
       | Inr request_usage \<Rightarrow>
           (let ev = \<lparr> ev_function_name = ''langchain.PromptLayerChatOpenAI.async'',
                       ev_provider_type = ''langchain'',
                       ev_args = message_dicts,
                       ev_kwargs = params,
                       ev_tags = tags_value (pl_tags self),
                       ev_response = response_dict,
                       ev_request_start_time = t0,
                       ev_request_end_time = t1,
                       ev_usage = request_usage,
                       ev_metadata = project_metadata (pl_project self),
                       ev_return_pl_id = flag_value (return_pl_id self) \<rparr>
            in (case promptlayer_api_request_async log ev of
                  Inl e \<Rightarrow> (Some e, h, log @ [ApiRequestAsync ev])
                | Inr pl_request_id \<Rightarrow>
                    chat_agenerate_loop self promptlayer_api_request_async cmd message_dicts
                      stop out t0 t1 rest
                      (if return_pl_id self = Some True
                       then set_pl_request_id h a pl_request_id else h)
                      (log @ [ApiRequestAsync ev])))))"

definition chat_agenerate ::
  "adapter \<Rightarrow> api_request \<Rightarrow> create_message_dicts
     \<Rightarrow> (pyval list \<Rightarrow> pyval \<Rightarrow> chat_generation heap
          \<Rightarrow> (error + chat_result) \<times> chat_generation heap)
     \<Rightarrow> pyval \<Rightarrow> pyval \<Rightarrow> pyval list \<Rightarrow> pyval \<Rightarrow> chat_generation heap \<Rightarrow> log
     \<Rightarrow> (error + chat_result) \<times> chat_generation heap \<times> log" where
  "chat_agenerate self promptlayer_api_request_async cmd super_agenerate t0 t1 messages stop
       h log =
     (case super_agenerate messages stop h of
        (Inl e, h1) \<Rightarrow> (Inl e, h1, log)
      | (Inr generated_responses, h1) \<Rightarrow>
          (case cmd messages stop of (message_dicts, params) \<Rightarrow>
           (case chat_agenerate_loop self promptlayer_api_request_async cmd message_dicts stop
                   (llm_output generated_responses) t0 t1
                   (generations generated_responses) h1 log of
              (Some e, h2, log') \<Rightarrow> (Inl e, h2, log')
            | (None, h2, log') \<Rightarrow> (Inr generated_responses, h2, log'))))"

subsection \<open>\<^verbatim>\<open>PromptLayerOpenAI\<close>\<close>

text \<open>
  The \<^verbatim>\<open>for i in range(len(prompts))\<close> loop of \<^verbatim>\<open>_generate\<close>: the prompts still to
  visit and the index \<open>i\<close>.  \<^verbatim>\<open>generated_responses.generations[i][0]\<close> raises
  \<^verbatim>\<open>IndexError\<close> when there is no \<open>i\<close>-th list or the list is empty.
\<close>

fun llm_generate_loop ::
  "adapter \<Rightarrow> api_request \<Rightarrow> info \<Rightarrow> pyval \<Rightarrow> pyval \<Rightarrow> string list \<Rightarrow> nat
     \<Rightarrow> addr list list \<Rightarrow> generation heap \<Rightarrow> log
     \<Rightarrow> error option \<times> generation heap \<times> log" where
  "llm_generate_loop self promptlayer_api_request out t0 t1 [] i gens h log = (None, h, log)"
| "llm_generate_loop self promptlayer_api_request out t0 t1 (prompt # rest) i gens h log =
     (if i < length gens \<and> gens ! i \<noteq> [] then
        (let a = hd (gens ! i);
             resp = PDict [(PStr ''text'', PStr (gen_text (objects h a)))]
         in (case info_getitem h out ''token_usage'' of
               Inl e \<Rightarrow> (Some e, h, log)
             | Inr request_usage \<Rightarrow>
                 (let ev = \<lparr> ev_function_name = ''langchain.PromptLayerOpenAI'',
                             ev_provider_type = ''langchain'',
                             ev_args = PList [PStr prompt],
                             ev_kwargs = identifying_params self,
                             ev_tags = tags_value (pl_tags self),
                             ev_response = resp,
                             ev_request_start_time = t0,
                             ev_request_end_time = t1,
                             ev_usage = request_usage,
                             ev_metadata = project_metadata (pl_project self),
                             ev_return_pl_id = flag_value (return_pl_id self) \<rparr>
                  in (case promptlayer_api_request log ev of
                        Inl e \<Rightarrow> (Some e, h, log @ [ApiRequest ev])
                      | Inr pl_request_id \<Rightarrow>
                          llm_generate_loop self promptlayer_api_request out t0 t1 rest (Suc i)
                            gens
                            (if return_pl_id self = Some True
                             then set_pl_request_id h a pl_request_id else h)
                            (log @ [ApiRequest ev])))))
      else (Some IndexError, h, log))"

definition llm_generate ::
  "adapter \<Rightarrow> api_request
     \<Rightarrow> (string list \<Rightarrow> pyval \<Rightarrow> generation heap \<Rightarrow> (error + llm_result) \<times> generation heap)
     \<Rightarrow> pyval \<Rightarrow> pyval \<Rightarrow> string list \<Rightarrow> pyval \<Rightarrow> generation heap \<Rightarrow> log
     \<Rightarrow> (error + llm_result) \<times> generation heap \<times> log" where
  "llm_generate self promptlayer_api_request super_generate t0 t1 prompts stop h log =
     (case super_generate prompts stop h of
        (Inl e, h1) \<Rightarrow> (Inl e, h1, log)
      | (Inr generated_responses, h1) \<Rightarrow>
          (case llm_generate_loop self promptlayer_api_request
                  (llm_output generated_responses) t0 t1 prompts 0
                  (generations generated_responses) h1 log of
             (Some e, h2, log') \<Rightarrow> (Inl e, h2, log')
           | (None, h2, log') \<Rightarrow> (Inr generated_responses, h2, log')))"

fun llm_agenerate_loop ::
  "adapter \<Rightarrow> api_request \<Rightarrow> info \<Rightarrow> pyval \<Rightarrow> pyval \<Rightarrow> string list \<Rightarrow> nat
     \<Rightarrow> addr list list \<Rightarrow> generation heap \<Rightarrow> log
     \<Rightarrow> error option \<times> generation heap \<times> log" where
  "llm_agenerate_loop self promptlayer_api_request_async out t0 t1 [] i gens h log =
     (None, h, log)"
| "llm_agenerate_loop self promptlayer_api_request_async out t0 t1 (prompt # rest) i gens
       h log =
     (if i < length gens \<and> gens ! i \<noteq> [] then
        (let a = hd (gens ! i);
             resp = PDict [(PStr ''text'', PStr (gen_text (objects h a)))]
         in (case info_getitem h out ''token_usage'' of
               Inl e \<Rightarrow> (Some e, h, log)
             | Inr request_usage \<Rightarrow>
                 (let ev = \<lparr> ev_function_name = ''langchain.PromptLayerOpenAI.async'',
                             ev_provider_type = ''langchain'',
                             ev_args = PList [PStr prompt],
                             ev_kwargs = identifying_params self,
                             ev_tags = tags_value (pl_tags self),
                             ev_response = resp,
                             ev_request_start_time = t0,
                             ev_request_end_time = t1,
                             ev_usage = request_usage,
                             ev_metadata = project_metadata (pl_project self),
                             ev_return_pl_id = flag_value (return_pl_id self) \<rparr>
                  in (case promptlayer_api_request_async log ev of
                        Inl e \<Rightarrow> (Some e, h, log @ [ApiRequestAsync ev])
                      | Inr pl_request_id \<Rightarrow>
                          llm_agenerate_loop self promptlayer_api_request_async out t0 t1 rest
                            (Suc i) gens
                            (if return_pl_id self = Some True
                             then set_pl_request_id h a pl_request_id else h)
                            (log @ [ApiRequestAsync ev])))))
      else (Some IndexError, h, log))"

definition llm_agenerate ::
  "adapter \<Rightarrow> api_request
     \<Rightarrow> (string list \<Rightarrow> pyval \<Rightarrow> generation heap \<Rightarrow> (error + llm_result) \<times> generation heap)
     \<Rightarrow> pyval \<Rightarrow> pyval \<Rightarrow> string list \<Rightarrow> pyval \<Rightarrow> generation heap \<Rightarrow> log
     \<Rightarrow> (error + llm_result) \<times> generation heap \<times> log" where
  "llm_agenerate self promptlayer_api_request_async super_agenerate t0 t1 prompts stop h log =
     (case super_agenerate prompts stop h of
        (Inl e, h1) \<Rightarrow> (Inl e, h1, log)
      | (Inr generated_responses, h1) \<Rightarrow>
          (case llm_agenerate_loop self promptlayer_api_request_async
                  (llm_output generated_responses) t0 t1 prompts 0
                  (generations generated_responses) h1 log of
             (Some e, h2, log') \<Rightarrow> (Inl e, h2, log')
           | (None, h2, log') \<Rightarrow> (Inr generated_responses, h2, log')))"

section \<open>The generic proxy\<close>

text \<open>
  Modelled from the spec: the generic proxy, \<^verbatim>\<open>PromptLayerBase\<close> of
  \<^verbatim>\<open>promptlayer/promptlayer.py\<close>, is missing from the sources; \<^verbatim>\<open>__init__.py\<close> only applies
  it to the \<^verbatim>\<open>openai\<close> module.  Section 4.1 of the spec, for a callable target: the call
  records the start time, invokes the target with the arguments it was given, records
  the end time, builds the event with the name and the tags given at wrapping,
  dispatches it to the Reporter, and returns the original, unmodified result; a failure
  or exception inside the Reporter is caught and swallowed, never raised.  By Section 7
  an exception of the target propagates unmodified.  Usage and metadata are optional
  fields of the event and are left empty.  \<open>proxy_call\<close> is the blocking path and
  \<open>proxy_call_async\<close> the awaited one, which differ in the reporting helper only.
\<close>

definition proxy_call ::
  "string \<Rightarrow> string \<Rightarrow> pyval \<Rightarrow> bool \<Rightarrow> api_request \<Rightarrow> (pyval \<Rightarrow> pyval \<Rightarrow> error + pyval)
     \<Rightarrow> pyval \<Rightarrow> pyval \<Rightarrow> pyval \<Rightarrow> pyval \<Rightarrow> log \<Rightarrow> (error + pyval) \<times> log" where
  "proxy_call name provider extra_tags return_request_id report target t0 t1 args kwargs log =
     (case target args kwargs of
        Inl e \<Rightarrow> (Inl e, log)
      | Inr response \<Rightarrow>
          (let ev = \<lparr> ev_function_name = name,
                      ev_provider_type = provider,
                      ev_args = args,
                      ev_kwargs = kwargs,
                      ev_tags = extra_tags,
                      ev_response = response,
                      ev_request_start_time = t0,
                      ev_request_end_time = t1,
                      ev_usage = PNone,
                      ev_metadata = PNone,
                      ev_return_pl_id = PBool return_request_id \<rparr>
           in (case report log ev of
                 Inl e \<Rightarrow> (Inr response, log @ [ApiRequest ev])
               | Inr request_id \<Rightarrow> (Inr response, log @ [ApiRequest ev]))))"

definition proxy_call_async ::
  "string \<Rightarrow> string \<Rightarrow> pyval \<Rightarrow> bool \<Rightarrow> api_request \<Rightarrow> (pyval \<Rightarrow> pyval \<Rightarrow> error + pyval)
     \<Rightarrow> pyval \<Rightarrow> pyval \<Rightarrow> pyval \<Rightarrow> pyval \<Rightarrow> log \<Rightarrow> (error + pyval) \<times> log" where
  "proxy_call_async name provider extra_tags return_request_id report_async target t0 t1
       args kwargs log =
     (case target args kwargs of
        Inl e \<Rightarrow> (Inl e, log)
      | Inr response \<Rightarrow>
          (let ev = \<lparr> ev_function_name = name,
                      ev_provider_type = provider,
                      ev_args = args,
                      ev_kwargs = kwargs,
                      ev_tags = extra_tags,
                      ev_response = response,
                      ev_request_start_time = t0,
                      ev_request_end_time = t1,
                      ev_usage = PNone,
                      ev_metadata = PNone,
                      ev_return_pl_id = PBool return_request_id \<rparr>
           in (case report_async log ev of
                 Inl e \<Rightarrow> (Inr response, log @ [ApiRequestAsync ev])
               | Inr request_id \<Rightarrow> (Inr response, log @ [ApiRequestAsync ev]))))"

section \<open>Vocabulary of the properties\<close>

text \<open>
  The input shapes the tracking functions accept: a dictionary whose keys and values
  are all strings, and an \<^verbatim>\<open>int\<close> between 0 and 100.
\<close>

definition valid_metadata :: "pyval \<Rightarrow> bool" where
  "valid_metadata m =
     (case m of
        PDict items \<Rightarrow> list_all (\<lambda>(k, v). isinstance_str k \<and> isinstance_str v) items
      | other \<Rightarrow> False)"

definition valid_score :: "pyval \<Rightarrow> bool" where
  "valid_score s = (isinstance_int s \<and> 0 \<le> int_value s \<and> int_value s \<le> 100)"

text \<open>The metadata shape of the payload: a string-to-string mapping, or \<^verbatim>\<open>None\<close>.\<close>

definition string_mapping_or_null :: "pyval \<Rightarrow> bool" where
  "string_mapping_or_null m = (m = PNone \<or> valid_metadata m)"

text \<open>The store and the log of what an adapter method yields.\<close>

abbreviation heap_of :: "'x \<times> 'h \<times> 'l \<Rightarrow> 'h" where
  "heap_of x \<equiv> fst (snd x)"

abbreviation log_of :: "'x \<times> 'h \<times> 'l \<Rightarrow> 'l" where
  "log_of x \<equiv> snd (snd x)"

text \<open>The events handed to the two reporting helpers, in the order of the log.\<close>

fun reported_events :: "log \<Rightarrow> call_event list" where
  "reported_events [] = []"
| "reported_events (ApiRequest ev # calls) = ev # reported_events calls"
| "reported_events (ApiRequestAsync ev # calls) = ev # reported_events calls"
| "reported_events (call # calls) = reported_events calls"

text \<open>An event with \<^verbatim>\<open>.async\<close> appended to its function name.\<close>

definition as_async :: "call_event \<Rightarrow> call_event" where
  "as_async ev = ev\<lparr> ev_function_name := ev_function_name ev @ ''.async'' \<rparr>"

text \<open>
  Modelled from the spec: the Reporter contract of Section 4.2.  A reporting helper
  that keeps it never raises: it returns the request identifier, or \<^verbatim>\<open>None\<close> when
  reporting is skipped or fails.  Such a helper is given by the value it returns,
  \<open>returning reporter\<close>.  \<open>raising e\<close> is a helper that breaks the contract and lets the
  exception \<open>e\<close> escape.
\<close>

type_synonym reporter = "log \<Rightarrow> call_event \<Rightarrow> pyval"

definition returning :: "reporter \<Rightarrow> api_request" where
  "returning reporter log ev = Inr (reporter log ev)"

definition raising :: "error \<Rightarrow> api_request" where
  "raising e log ev = Inl e"



fun info_refs :: "info \<Rightarrow> addr list" where
  "info_refs (Ref d) = [d]"
| "info_refs (Val v) = []"

definition generation_refs :: "'a generation_scheme heap \<Rightarrow> addr list \<Rightarrow> addr list" where
  "generation_refs h as = concat (map (\<lambda>a. info_refs (generation_info (objects h a))) as)"







text \<open>
  The event a loop round builds, written once with the function name as a parameter,
  to state what the four loops log.
\<close>

definition chat_event ::
  "string \<Rightarrow> adapter \<Rightarrow> create_message_dicts \<Rightarrow> pyval \<Rightarrow> pyval \<Rightarrow> pyval \<Rightarrow> pyval \<Rightarrow> pyval
     \<Rightarrow> pyval \<Rightarrow> call_event" where
  "chat_event name self cmd message_dicts stop request_usage t0 t1 msg =
     \<lparr> ev_function_name = name,
       ev_provider_type = ''langchain'',
       ev_args = message_dicts,
       ev_kwargs = snd (cmd [msg] stop),
       ev_tags = tags_value (pl_tags self),
       ev_response = fst (cmd [msg] stop),
       ev_request_start_time = t0,
       ev_request_end_time = t1,
       ev_usage = request_usage,
       ev_metadata = project_metadata (pl_project self),
       ev_return_pl_id = flag_value (return_pl_id self) \<rparr>"

definition llm_event ::
  "string \<Rightarrow> adapter \<Rightarrow> pyval \<Rightarrow> pyval \<Rightarrow> pyval \<Rightarrow> string \<Rightarrow> string \<Rightarrow> call_event" where
  "llm_event name self request_usage t0 t1 prompt txt_of_generation =
     \<lparr> ev_function_name = name,
       ev_provider_type = ''langchain'',
       ev_args = PList [PStr prompt],
       ev_kwargs = identifying_params self,
       ev_tags = tags_value (pl_tags self),
       ev_response = PDict [(PStr ''text'', PStr txt_of_generation)],
       ev_request_start_time = t0,
       ev_request_end_time = t1,
       ev_usage = request_usage,
       ev_metadata = project_metadata (pl_project self),
       ev_return_pl_id = flag_value (return_pl_id self) \<rparr>"

text \<open>
  The four loops have one shape: a list of rounds, each failing before it reports or
  reporting one event for one generation.  \<open>report_loop\<close> runs such a list; the lemmas
  below show each loop of the adapters to be an instance, and the properties are proved
  of \<open>report_loop\<close> once.
\<close>

fun report_loop ::
  "(call_event \<Rightarrow> util_call) \<Rightarrow> bool \<Rightarrow> api_request \<Rightarrow> (error + addr \<times> call_event) list
     \<Rightarrow> 'a generation_scheme heap \<Rightarrow> log
     \<Rightarrow> error option \<times> 'a generation_scheme heap \<times> log" where
  "report_loop via flag req [] h log = (None, h, log)"
| "report_loop via flag req (Inl e # rounds) h log = (Some e, h, log)"
| "report_loop via flag req (Inr (a, ev) # rounds) h log =
     (case req log ev of
        Inl e \<Rightarrow> (Some e, h, log @ [via ev])
      | Inr pl_request_id \<Rightarrow>
          report_loop via flag req rounds
            (if flag then set_pl_request_id h a pl_request_id else h) (log @ [via ev]))"

definition chat_rounds ::
  "string \<Rightarrow> adapter \<Rightarrow> create_message_dicts \<Rightarrow> pyval \<Rightarrow> pyval \<Rightarrow> info \<Rightarrow> pyval \<Rightarrow> pyval
     \<Rightarrow> chat_generation heap \<Rightarrow> addr list \<Rightarrow> (error + addr \<times> call_event) list" where
  "chat_rounds name self cmd message_dicts stop out t0 t1 h as =
     map (\<lambda>a. case info_getitem h out ''token_usage'' of
                 Inl e \<Rightarrow> Inl e
               | Inr u \<Rightarrow> Inr (a, chat_event name self cmd message_dicts stop u t0 t1
                                    (message (objects h a)))) as"

fun llm_rounds ::
  "string \<Rightarrow> adapter \<Rightarrow> info \<Rightarrow> pyval \<Rightarrow> pyval \<Rightarrow> generation heap \<Rightarrow> string list \<Rightarrow> nat
     \<Rightarrow> addr list list \<Rightarrow> (error + addr \<times> call_event) list" where
  "llm_rounds name self out t0 t1 h [] i gens = []"
| "llm_rounds name self out t0 t1 h (prompt # rest) i gens =
     (if i < length gens \<and> gens ! i \<noteq> [] then
        (case info_getitem h out ''token_usage'' of
           Inl e \<Rightarrow> Inl e
         | Inr u \<Rightarrow> Inr (hd (gens ! i),
                         llm_event name self u t0 t1 prompt
                           (gen_text (objects h (hd (gens ! i))))))
      else Inl IndexError)
     # llm_rounds name self out t0 t1 h rest (Suc i) gens"

text \<open>The rounds that run when every reporting call returns, and the error that ends them.\<close>

fun rounds_run :: "(error + 'x) list \<Rightarrow> 'x list" where
  "rounds_run [] = []"
| "rounds_run (Inl e # rounds) = []"
| "rounds_run (Inr x # rounds) = x # rounds_run rounds"

fun rounds_error :: "(error + 'x) list \<Rightarrow> error option" where
  "rounds_error [] = None"
| "rounds_error (Inl e # rounds) = Some e"
| "rounds_error (Inr x # rounds) = rounds_error rounds"

section \<open>Example inputs\<close>

text \<open>A service that acknowledges every call, and one that is unreachable.\<close>

definition utils_ok :: utils where
  "utils_ok log call = Inr (PDict [(PStr ''success'', PBool True)])"

definition utils_down :: utils where
  "utils_down log call = Inl (ForeignError ''ConnectionError'')"

text \<open>
  A reporter that hands out request identifiers when asked for one, and a reporter whose
  every request fails, so that it returns \<^verbatim>\<open>None\<close>.
\<close>

definition reporter_ok :: reporter where
  "reporter_ok log ev =
     (if ev_return_pl_id ev = PBool True then PInt (int (length log) + 1) else PNone)"

definition reporter_down :: reporter where
  "reporter_down log ev = PNone"

text \<open>
  A service that stores one template, without a \<^verbatim>\<open>"_type"\<close> key, and a loader that
  wraps every dictionary it is given.
\<close>

definition utils_template :: utils where
  "utils_template log call =
     Inr (PDict [(PStr ''prompt_template'',
                  PDict [(PStr ''template'', PStr ''Hi {name}'')])])"

fun example_loader :: "pyval \<Rightarrow> error + pyval" where
  "example_loader (PDict d) = Inr (PPromptTemplate d)"
| "example_loader v = Inl (ForeignError ''ValueError'')"

text \<open>
  Adapters with and without \<^verbatim>\<open>return_pl_id\<close>, and results of the wrapped calls: a chat
  result with the one generation at address 0; a completion result with one prompt's two
  completions at the addresses 0 and 1.  No generation has a \<^verbatim>\<open>generation_info\<close> yet.
\<close>

definition example_self :: adapter where
  "example_self =
     \<lparr> pl_tags = Some [''demo''], pl_project = None, return_pl_id = Some True,
       identifying_params = PDict [(PStr ''model_name'', PStr ''text-davinci-003'')] \<rparr>"

definition example_self_plain :: adapter where
  "example_self_plain =
     \<lparr> pl_tags = None, pl_project = Some ''billing'', return_pl_id = Some False,
       identifying_params = PDict [(PStr ''model_name'', PStr ''text-davinci-003'')] \<rparr>"

definition example_cmd :: create_message_dicts where
  "example_cmd messages stop = (PList messages, PDict [(PStr ''stop'', stop)])"

definition example_messages :: "pyval list" where
  "example_messages = [PDict [(PStr ''role'', PStr ''user''), (PStr ''content'', PStr ''Hi'')]]"

definition example_chat_generation :: chat_generation where
  "example_chat_generation =
     \<lparr> gen_text = ''Hello'', generation_info = Val PNone,
       message = PDict [(PStr ''role'', PStr ''assistant''),
                        (PStr ''content'', PStr ''Hello'')] \<rparr>"

definition example_chat_heap :: "chat_generation heap" where
  "example_chat_heap = \<lparr> objects = (\<lambda>a. example_chat_generation), dicts = (\<lambda>d. []) \<rparr>"

definition example_chat_result :: chat_result where
  "example_chat_result =
     \<lparr> generations = [0],
       llm_output =
         Val (PDict [(PStr ''token_usage'', PDict [(PStr ''total_tokens'', PInt 7)])]) \<rparr>"

definition example_chat_target ::
  "pyval list \<Rightarrow> pyval \<Rightarrow> chat_generation heap \<Rightarrow> (error + chat_result) \<times> chat_generation heap"
  where
  "example_chat_target messages stop h = (Inr example_chat_result, example_chat_heap)"

definition failing_chat_target ::
  "pyval list \<Rightarrow> pyval \<Rightarrow> chat_generation heap \<Rightarrow> (error + chat_result) \<times> chat_generation heap"
  where
  "failing_chat_target messages stop h = (Inl (ForeignError ''RateLimitError''), h)"

definition example_llm_heap :: "generation heap" where
  "example_llm_heap =
     \<lparr> objects = (\<lambda>a. \<lparr> gen_text = ''A'', generation_info = Val PNone \<rparr>)
         (1 := \<lparr> gen_text = ''B'', generation_info = Val PNone \<rparr>),
       dicts = (\<lambda>d. []) \<rparr>"

definition example_llm_result :: llm_result where
  "example_llm_result =
     \<lparr> generations = [[0, 1]],
       llm_output =
         Val (PDict [(PStr ''token_usage'', PDict [(PStr ''total_tokens'', PInt 9)])]) \<rparr>"

definition example_llm_target ::
  "string list \<Rightarrow> pyval \<Rightarrow> generation heap \<Rightarrow> (error + llm_result) \<times> generation heap" where
  "example_llm_target prompts stop h = (Inr example_llm_result, example_llm_heap)"

definition failing_llm_target ::
  "string list \<Rightarrow> pyval \<Rightarrow> generation heap \<Rightarrow> (error + llm_result) \<times> generation heap" where
  "failing_llm_target prompts stop h = (Inl (ForeignError ''RateLimitError''), h)"





definition failing_callable :: "pyval \<Rightarrow> pyval \<Rightarrow> error + pyval" where
  "failing_callable args kwargs = Inl (ForeignError ''RateLimitError'')"

section \<open>Facts about dictionaries and the metadata check\<close>

lemma update_fresh: "k \<notin> fst ` set al \<Longrightarrow> AList.update k v al = al @ [(k, v)]"
  by (induction al) auto

lemma map_of_update_same: "map_of (AList.update k v al) k = Some v"
  by (simp add: update_conv')

lemma metadata_items_check_None:
  "metadata_items_check items = None \<longleftrightarrow>
     (\<forall>(k, v) \<in> set items. isinstance_str k \<and> isinstance_str v)"
  by (induction items) (auto split: if_splits)

lemma metadata_items_check_Some:
  "metadata_items_check items = Some e \<Longrightarrow>
     e = Exception ''Please provide a dictionary of metadata with key value pair of strings.''"
  by (induction items) (auto split: if_splits)

lemma track_metadata_invalid:
  assumes "\<not> valid_metadata m"
  shows "\<exists>msg. track_metadata utils request_id m log = (Inl (Exception msg), log)"
proof (cases m)
  case (PDict items)
  with assms have "metadata_items_check items \<noteq> None"
    by (auto simp: valid_metadata_def metadata_items_check_None list_all_iff)
  then obtain e where e: "metadata_items_check items = Some e" by blast
  from metadata_items_check_Some [OF e] e PDict show ?thesis by simp
qed simp_all

lemma track_score_invalid:
  assumes "\<not> valid_score s"
  shows "\<exists>msg. track_score utils request_id s log = (Inl (Exception msg), log)"
  using assms by (auto simp: valid_score_def track_score_def)

text \<open>
  A \<^verbatim>\<open>bool\<close> passes both checks of \<^verbatim>\<open>track.score\<close>, being an \<^verbatim>\<open>int\<close> of value 0 or 1.
\<close>

lemma track_score_bool:
  "track_score utils request_id (PBool b) log =
     (utils log (TrackScore request_id (PBool b)), log @ [TrackScore request_id (PBool b)])"
  by (simp add: track_score_def promptlayer_track_score_def)


section \<open>The tracking functions\<close>

text \<open>
  C2, as the claim states it, fails for \<^verbatim>\<open>track.prompt\<close>: called with a list as request
  id and a dictionary as template id, it raises nothing and the service is contacted.
\<close>

theorem track_prompt_unchecked_counterexample:
  "track_prompt utils_ok (PList []) (PDict [(PInt 1, PNone)]) (PStr ''latest'') [] =
     (Inr (PDict [(PStr ''success'', PBool True)]),
      [TrackPrompt (PList []) (PDict [(PInt 1, PNone)]) (PStr ''latest'')])"
  by (simp add: track_prompt_def promptlayer_track_prompt_def utils_ok_def)

text \<open>
  C2, amended: \<^verbatim>\<open>track.metadata\<close> and \<^verbatim>\<open>track.score\<close> check the shape of their input
  themselves and raise \<^verbatim>\<open>Exception\<close> with the log of helper calls unchanged, that is
  before any remote call.  \<^verbatim>\<open>track.prompt\<close> checks nothing: whatever it is given goes
  to \<^verbatim>\<open>promptlayer_track_prompt\<close>, and it returns or raises what that helper does.
\<close>

theorem track_local_validation:
  "(\<not> valid_metadata m \<longrightarrow>
      (\<exists>msg. track_metadata utils request_id m log = (Inl (Exception msg), log)))
   \<and> (\<not> valid_score s \<longrightarrow>
      (\<exists>msg. track_score utils request_id s log = (Inl (Exception msg), log)))
   \<and> track_prompt utils request_id prompt_template_id version log =
        (utils log (TrackPrompt request_id prompt_template_id version),
         log @ [TrackPrompt request_id prompt_template_id version])"
  using track_metadata_invalid track_score_invalid
  by (simp add: track_prompt_def promptlayer_track_prompt_def)

theorem track_local_validation_witness:
  "\<not> valid_metadata (PDict [(PStr ''a'', PInt 1)])
   \<and> (\<exists>msg. track_metadata utils_ok (PStr ''req'') (PDict [(PStr ''a'', PInt 1)]) [] =
         (Inl (Exception msg), []))
   \<and> \<not> valid_score (PInt 101)
   \<and> (\<exists>msg. track_score utils_ok (PStr ''req'') (PInt 101) [] = (Inl (Exception msg), []))
   \<and> track_prompt utils_ok (PStr ''req'') (PInt 7) PNone [] =
        (Inr (PDict [(PStr ''success'', PBool True)]),
         [TrackPrompt (PStr ''req'') (PInt 7) PNone])"
  using track_local_validation [of "PDict [(PStr ''a'', PInt 1)]" utils_ok "PStr ''req''" "[]"
      "PInt 101" "PInt 7" PNone]
  by (simp add: valid_metadata_def valid_score_def utils_ok_def)

text \<open>
  C5: \<^verbatim>\<open>track.score\<close> raises \<^verbatim>\<open>Exception\<close>, with no helper call made, for every integer
  below 0 or above 100 and for every value that is not an \<^verbatim>\<open>int\<close>; for every integer from
  0 to 100, both bounds included, it makes the one call to \<^verbatim>\<open>promptlayer_track_score\<close>
  and returns its outcome.  This holds for every request id.
\<close>

theorem track_score_range:
  "(n < 0 \<or> 100 < n \<longrightarrow>
      track_score utils request_id (PInt n) log =
        (Inl (Exception ''Please provide a score between 0 and 100.''), log))
   \<and> (\<not> isinstance_int v \<longrightarrow>
      track_score utils request_id v log =
        (Inl (Exception ''Please provide a int score.''), log))
   \<and> (0 \<le> n \<and> n \<le> 100 \<longrightarrow>
      track_score utils request_id (PInt n) log =
        (utils log (TrackScore request_id (PInt n)), log @ [TrackScore request_id (PInt n)]))"
  by (auto simp: track_score_def promptlayer_track_score_def)

theorem track_score_range_witness:
  "track_score utils_ok (PStr ''req'') (PInt (- 1)) [] =
      (Inl (Exception ''Please provide a score between 0 and 100.''), [])
   \<and> track_score utils_ok (PStr ''req'') (PInt 101) [] =
      (Inl (Exception ''Please provide a score between 0 and 100.''), [])
   \<and> track_score utils_ok (PStr ''req'') (PFloat 101 (- 1)) [] =
      (Inl (Exception ''Please provide a int score.''), [])
   \<and> track_score utils_ok (PStr ''req'') (PInt 0) [] =
      (Inr (PDict [(PStr ''success'', PBool True)]), [TrackScore (PStr ''req'') (PInt 0)])
   \<and> track_score utils_ok (PStr ''req'') (PInt 100) [] =
      (Inr (PDict [(PStr ''success'', PBool True)]), [TrackScore (PStr ''req'') (PInt 100)])"
  using track_score_range [of "- 1" utils_ok "PStr ''req''" "[]" "PFloat 101 (- 1)"]
    track_score_range [of 101 utils_ok "PStr ''req''" "[]" "PFloat 101 (- 1)"]
    track_score_range [of 0 utils_ok "PStr ''req''" "[]" "PFloat 101 (- 1)"]
    track_score_range [of 100 utils_ok "PStr ''req''" "[]" "PFloat 101 (- 1)"]
  by (simp add: utils_ok_def)

text \<open>
  C6: \<^verbatim>\<open>track.metadata\<close> raises \<^verbatim>\<open>Exception\<close>, with no helper call made, when its argument
  is not a dictionary and when some key or some value of the dictionary is not a string;
  when every key and every value is a string it makes the one call to
  \<^verbatim>\<open>promptlayer_track_metadata\<close> and returns its outcome.
\<close>

theorem track_metadata_strings:
  "(\<not> isinstance_dict m \<longrightarrow>
      track_metadata utils request_id m log =
        (Inl (Exception ''Please provide a dictionary of metadata.''), log))
   \<and> ((\<exists>(k, v) \<in> set items. \<not> isinstance_str k \<or> \<not> isinstance_str v) \<longrightarrow>
      track_metadata utils request_id (PDict items) log =
        (Inl (Exception
           ''Please provide a dictionary of metadata with key value pair of strings.''), log))
   \<and> ((\<forall>(k, v) \<in> set items. isinstance_str k \<and> isinstance_str v) \<longrightarrow>
      track_metadata utils request_id (PDict items) log =
        (utils log (TrackMetadata request_id (PDict items)),
         log @ [TrackMetadata request_id (PDict items)]))"
proof (intro conjI impI)
  assume "\<not> isinstance_dict m"
  then show "track_metadata utils request_id m log =
        (Inl (Exception ''Please provide a dictionary of metadata.''), log)"
    by (cases m) simp_all
next
  assume "\<exists>(k, v) \<in> set items. \<not> isinstance_str k \<or> \<not> isinstance_str v"
  then have "metadata_items_check items \<noteq> None"
    by (auto simp: metadata_items_check_None)
  then obtain e where e: "metadata_items_check items = Some e" by blast
  from metadata_items_check_Some [OF e] e
  show "track_metadata utils request_id (PDict items) log =
        (Inl (Exception
           ''Please provide a dictionary of metadata with key value pair of strings.''), log)"
    by simp
next
  assume "\<forall>(k, v) \<in> set items. isinstance_str k \<and> isinstance_str v"
  then have "metadata_items_check items = None"
    by (simp add: metadata_items_check_None)
  then show "track_metadata utils request_id (PDict items) log =
        (utils log (TrackMetadata request_id (PDict items)),
         log @ [TrackMetadata request_id (PDict items)])"
    by (simp add: promptlayer_track_metadata_def)
qed

theorem track_metadata_strings_witness:
  "track_metadata utils_ok (PStr ''req'') (PDict [(PStr ''a'', PInt 1)]) [] =
      (Inl (Exception
         ''Please provide a dictionary of metadata with key value pair of strings.''), [])
   \<and> track_metadata utils_ok (PStr ''req'') (PList [PStr ''a'']) [] =
      (Inl (Exception ''Please provide a dictionary of metadata.''), [])
   \<and> track_metadata utils_ok (PStr ''req'') (PDict [(PStr ''a'', PStr ''1'')]) [] =
      (Inr (PDict [(PStr ''success'', PBool True)]),
       [TrackMetadata (PStr ''req'') (PDict [(PStr ''a'', PStr ''1'')])])"
  using track_metadata_strings [of "PList [PStr ''a'']" utils_ok "PStr ''req''" "[]"
      "[(PStr ''a'', PInt 1)]"]
    track_metadata_strings [of "PList [PStr ''a'']" utils_ok "PStr ''req''" "[]"
      "[(PStr ''a'', PStr ''1'')]"]
  by (simp add: utils_ok_def)


section \<open>The prompt template functions\<close>

text \<open>
  C7: \<^verbatim>\<open>publish_prompt\<close> given a plain dictionary publishes it, and given a langchain
  \<^verbatim>\<open>PromptTemplate\<close> publishes its \<^verbatim>\<open>.dict()\<close>: one call to
  \<^verbatim>\<open>promptlayer_publish_prompt\<close>, after which it returns \<^verbatim>\<open>None\<close> (or lets the helper's
  exception through).  Given any other value, such as 42 or the default \<^verbatim>\<open>None\<close>, it
  raises \<^verbatim>\<open>Exception\<close> with no helper call made.
\<close>

theorem publish_prompt_template_kinds:
  "publish_prompt utils prompt_name tags (PDict d) log =
      ((case utils log (PublishPrompt prompt_name (PDict d) tags) of
          Inl e \<Rightarrow> Inl e | Inr ack \<Rightarrow> Inr PNone),
       log @ [PublishPrompt prompt_name (PDict d) tags])
   \<and> publish_prompt utils prompt_name tags (PPromptTemplate d) log =
      ((case utils log (PublishPrompt prompt_name (PDict d) tags) of
          Inl e \<Rightarrow> Inl e | Inr ack \<Rightarrow> Inr PNone),
       log @ [PublishPrompt prompt_name (PDict d) tags])
   \<and> ((\<forall>x. t \<noteq> PDict x) \<and> (\<forall>x. t \<noteq> PPromptTemplate x) \<longrightarrow>
       publish_prompt utils prompt_name tags t log =
         (Inl (Exception
            ''Please provide either a JSON prompt template or a langchain prompt template.''),
          log))"
  by (cases t) (auto simp: promptlayer_publish_prompt_def split: sum.splits)

theorem publish_prompt_template_kinds_witness:
  "publish_prompt utils_ok (PStr ''x'') (PList [])
       (PDict [(PStr ''_type'', PStr ''prompt'')]) [] =
      (Inr PNone,
       [PublishPrompt (PStr ''x'') (PDict [(PStr ''_type'', PStr ''prompt'')]) (PList [])])
   \<and> publish_prompt utils_ok (PStr ''x'') (PList [])
       (PPromptTemplate [(PStr ''template'', PStr ''Hi {name}'')]) [] =
      (Inr PNone,
       [PublishPrompt (PStr ''x'') (PDict [(PStr ''template'', PStr ''Hi {name}'')]) (PList [])])
   \<and> publish_prompt utils_ok (PStr ''x'') (PList []) (PInt 42) [] =
      (Inl (Exception
         ''Please provide either a JSON prompt template or a langchain prompt template.''), [])
   \<and> publish_prompt utils_ok (PStr ''x'') (PList []) PNone [] =
      (Inl (Exception
         ''Please provide either a JSON prompt template or a langchain prompt template.''), [])
   \<and> publish_prompt utils_down (PStr ''x'') (PList [])
       (PDict [(PStr ''_type'', PStr ''prompt'')]) [] =
      (Inl (ForeignError ''ConnectionError''),
       [PublishPrompt (PStr ''x'') (PDict [(PStr ''_type'', PStr ''prompt'')]) (PList [])])"
  using publish_prompt_template_kinds [of utils_down "PStr ''x''" "PList []"
      "[(PStr ''_type'', PStr ''prompt'')]" "[]" "PInt 42"]
    publish_prompt_template_kinds [of utils_ok "PStr ''x''" "PList []"
      "[(PStr ''_type'', PStr ''prompt'')]" "[]" "PInt 42"]
    publish_prompt_template_kinds [of utils_ok "PStr ''x''" "PList []"
      "[(PStr ''template'', PStr ''Hi {name}'')]" "[]" PNone]
  by (simp add: utils_ok_def utils_down_def)

text \<open>
  C10: let the service answer with a dictionary whose \<^verbatim>\<open>"prompt_template"\<close> entry is
  \<open>template\<close>.  With \<^verbatim>\<open>langchain=False\<close>, \<^verbatim>\<open>get_prompt\<close> returns \<open>template\<close> as it is.  With
  \<^verbatim>\<open>langchain=True\<close> and \<open>template\<close> a dictionary, the loader receives that dictionary
  unchanged when it has the key \<^verbatim>\<open>"_type"\<close>, and with the pair \<^verbatim>\<open>"_type": "prompt"\<close>
  added at its end when it has not.
\<close>

theorem get_prompt_type_default:
  assumes "utils log (GetPrompt prompt_name version) = Inr (PDict p)"
    and "map_of p (PStr ''prompt_template'') = Some template"
  shows "get_prompt utils load_prompt_from_config prompt_name False version log =
      (Inr template, log @ [GetPrompt prompt_name version])
   \<and> (template = PDict t \<longrightarrow>
      get_prompt utils load_prompt_from_config prompt_name True version log =
        (load_prompt_from_config
           (PDict (if PStr ''_type'' \<in> fst ` set t then t
                   else t @ [(PStr ''_type'', PStr ''prompt'')])),
         log @ [GetPrompt prompt_name version]))"
  using assms
  by (simp add: get_prompt_def promptlayer_get_prompt_def update_fresh map_of_update_same)

theorem get_prompt_type_default_witness:
  "get_prompt utils_template example_loader (PStr ''greeting'') False PNone [] =
      (Inr (PDict [(PStr ''template'', PStr ''Hi {name}'')]),
       [GetPrompt (PStr ''greeting'') PNone])
   \<and> get_prompt utils_template example_loader (PStr ''greeting'') True PNone [] =
      (Inr (PPromptTemplate
         [(PStr ''template'', PStr ''Hi {name}''), (PStr ''_type'', PStr ''prompt'')]),
       [GetPrompt (PStr ''greeting'') PNone])"
  using get_prompt_type_default [of utils_template "[]" "PStr ''greeting''" PNone
      "[(PStr ''prompt_template'', PDict [(PStr ''template'', PStr ''Hi {name}'')])]"
      "PDict [(PStr ''template'', PStr ''Hi {name}'')]" example_loader
      "[(PStr ''template'', PStr ''Hi {name}'')]"]
  by (simp add: utils_template_def)

section \<open>What the adapter loops compute\<close>

text \<open>
  The adapters write \<^verbatim>\<open>generation_info["pl_request_id"]\<close> in place.  The lemmas on
  \<open>set_pl_request_id\<close> say what one such write changes in the store; each loop of the
  adapters is then shown to be a run of \<open>report_loop\<close> over its rounds, and what the
  four methods return, write and log is derived from the properties of such runs.
\<close>

subsection \<open>Writing a request identifier\<close>



lemma set_id_gen_text [simp]:
  "gen_text (objects (set_pl_request_id h a v) b) = gen_text (objects h b)"
  by (simp add: set_pl_request_id_def split: info.splits)

lemma set_id_message [simp]:
  "message (objects (set_pl_request_id h a v) b) = message (objects h b)"
  by (simp add: set_pl_request_id_def split: info.splits)

lemma set_id_refs [simp]:
  "info_refs (generation_info (objects (set_pl_request_id h a v) b)) =
     info_refs (generation_info (objects h b))"
  by (simp add: set_pl_request_id_def split: info.splits)

lemma set_id_generation_refs [simp]:
  "generation_refs (set_pl_request_id h a v) as = generation_refs h as"
  by (simp add: generation_refs_def)


lemma set_id_other_key:
  "key \<noteq> ''pl_request_id'' \<Longrightarrow>
   info_getitem (set_pl_request_id h a v) out key = info_getitem h out key"
  by (simp add: set_pl_request_id_def info_getitem_def update_conv' split: info.splits)

lemma set_id_usage [simp]:
  "info_getitem (set_pl_request_id h a v) out ''token_usage'' =
     info_getitem h out ''token_usage''"
  by (simp add: set_id_other_key)





subsection \<open>Each loop is a run of its rounds\<close>

lemma chat_rounds_set_id [simp]:
  "chat_rounds name self cmd md stop out t0 t1 (set_pl_request_id h a v) as =
     chat_rounds name self cmd md stop out t0 t1 h as"
  by (simp add: chat_rounds_def cong: sum.case_cong)

lemma llm_rounds_set_id [simp]:
  "llm_rounds name self out t0 t1 (set_pl_request_id h a v) prompts i gens =
     llm_rounds name self out t0 t1 h prompts i gens"
  by (induction prompts arbitrary: i) (simp_all cong: sum.case_cong)

lemma chat_generate_loop_rounds:
  "chat_generate_loop self req cmd md stop out t0 t1 as h log =
     report_loop ApiRequest (return_pl_id self = Some True) req
       (chat_rounds ''langchain.PromptLayerChatOpenAI'' self cmd md stop out t0 t1 h as) h log"
proof (induction as arbitrary: h log)
  case Nil
  show ?case by (simp add: chat_rounds_def)
next
  case (Cons a rest)
  show ?case
  proof (cases "info_getitem h out ''token_usage''")
    case (Inl e)
    then show ?thesis by (simp add: chat_rounds_def case_prod_beta)
  next
    case (Inr u)
    let ?ev = "chat_event ''langchain.PromptLayerChatOpenAI'' self cmd md stop u t0 t1
        (message (objects h a))"
    have hd: "chat_rounds ''langchain.PromptLayerChatOpenAI'' self cmd md stop out t0 t1 h
          (a # rest) =
        Inr (a, ?ev) # chat_rounds ''langchain.PromptLayerChatOpenAI'' self cmd md stop out
          t0 t1 h rest"
      using Inr by (simp add: chat_rounds_def)
    show ?thesis
    proof (cases "req log ?ev")
      case (Inl e)
      with Inr show ?thesis
        unfolding hd by (simp add: chat_event_def case_prod_beta Let_def)
    next
      case r: (Inr v)
      show ?thesis
        unfolding hd using Inr r Cons.IH
        by (simp add: chat_event_def [symmetric] case_prod_beta Let_def)
    qed
  qed
qed

lemma chat_agenerate_loop_rounds:
  "chat_agenerate_loop self req cmd md stop out t0 t1 as h log =
     report_loop ApiRequestAsync (return_pl_id self = Some True) req
       (chat_rounds ''langchain.PromptLayerChatOpenAI.async'' self cmd md stop out t0 t1 h as) h log"
proof (induction as arbitrary: h log)
  case Nil
  show ?case by (simp add: chat_rounds_def)
next
  case (Cons a rest)
  show ?case
  proof (cases "info_getitem h out ''token_usage''")
    case (Inl e)
    then show ?thesis by (simp add: chat_rounds_def case_prod_beta)
  next
    case (Inr u)
    let ?ev = "chat_event ''langchain.PromptLayerChatOpenAI.async'' self cmd md stop u t0 t1
        (message (objects h a))"
    have hd: "chat_rounds ''langchain.PromptLayerChatOpenAI.async'' self cmd md stop out t0 t1 h
          (a # rest) =
        Inr (a, ?ev) # chat_rounds ''langchain.PromptLayerChatOpenAI.async'' self cmd md stop out
          t0 t1 h rest"
      using Inr by (simp add: chat_rounds_def)
    show ?thesis
    proof (cases "req log ?ev")
      case (Inl e)
      with Inr show ?thesis
        unfolding hd by (simp add: chat_event_def case_prod_beta Let_def)
    next
      case r: (Inr v)
      show ?thesis
        unfolding hd using Inr r Cons.IH
        by (simp add: chat_event_def [symmetric] case_prod_beta Let_def)
    qed
  qed
qed

lemma llm_generate_loop_rounds:
  "llm_generate_loop self req out t0 t1 prompts i gens h log =
     report_loop ApiRequest (return_pl_id self = Some True) req
       (llm_rounds ''langchain.PromptLayerOpenAI'' self out t0 t1 h prompts i gens) h log"
proof (induction prompts arbitrary: i h log)
  case Nil
  show ?case by simp
next
  case (Cons p rest)
  show ?case
  proof (cases "i < length gens \<and> gens ! i \<noteq> []")
    case False
    then show ?thesis by auto
  next
    case True
    show ?thesis
    proof (cases "info_getitem h out ''token_usage''")
      case (Inl e)
      with True show ?thesis by simp
    next
      case (Inr u)
      let ?ev = "llm_event ''langchain.PromptLayerOpenAI'' self u t0 t1 p
          (gen_text (objects h (hd (gens ! i))))"
      have hd: "llm_rounds ''langchain.PromptLayerOpenAI'' self out t0 t1 h (p # rest) i gens =
          Inr (hd (gens ! i), ?ev)
          # llm_rounds ''langchain.PromptLayerOpenAI'' self out t0 t1 h rest (Suc i) gens"
        using True Inr by simp
      show ?thesis
      proof (cases "req log ?ev")
        case (Inl e)
        with True Inr show ?thesis
          unfolding hd by (simp add: llm_event_def Let_def)
      next
        case r: (Inr v)
        show ?thesis
          unfolding hd using True Inr r Cons.IH
          by (simp add: llm_event_def [symmetric] Let_def)
      qed
    qed
  qed
qed

lemma llm_agenerate_loop_rounds:
  "llm_agenerate_loop self req out t0 t1 prompts i gens h log =
     report_loop ApiRequestAsync (return_pl_id self = Some True) req
       (llm_rounds ''langchain.PromptLayerOpenAI.async'' self out t0 t1 h prompts i gens) h log"
proof (induction prompts arbitrary: i h log)
  case Nil
  show ?case by simp
next
  case (Cons p rest)
  show ?case
  proof (cases "i < length gens \<and> gens ! i \<noteq> []")
    case False
    then show ?thesis by auto
  next
    case True
    show ?thesis
    proof (cases "info_getitem h out ''token_usage''")
      case (Inl e)
      with True show ?thesis by simp
    next
      case (Inr u)
      let ?ev = "llm_event ''langchain.PromptLayerOpenAI.async'' self u t0 t1 p
          (gen_text (objects h (hd (gens ! i))))"
      have hd: "llm_rounds ''langchain.PromptLayerOpenAI.async'' self out t0 t1 h (p # rest) i gens =
          Inr (hd (gens ! i), ?ev)
          # llm_rounds ''langchain.PromptLayerOpenAI.async'' self out t0 t1 h rest (Suc i) gens"
        using True Inr by simp
      show ?thesis
      proof (cases "req log ?ev")
        case (Inl e)
        with True Inr show ?thesis
          unfolding hd by (simp add: llm_event_def Let_def)
      next
        case r: (Inr v)
        show ?thesis
          unfolding hd using True Inr r Cons.IH
          by (simp add: llm_event_def [symmetric] Let_def)
      qed
    qed
  qed
qed

subsection \<open>Runs of rounds\<close>


lemma report_loop_returning:
  "fst (report_loop via flag (returning reporter) rounds h log) = rounds_error rounds
   \<and> log_of (report_loop via flag (returning reporter) rounds h log) =
       log @ map (\<lambda>x. via (snd x)) (rounds_run rounds)"
  by (induction via flag "returning reporter" rounds h log rule: report_loop.induct)
    (simp_all add: returning_def)

lemma report_loop_raising:
  "report_loop via flag (raising e) (Inr (a, ev) # rounds) h log =
     (Some e, h, log @ [via ev])"
  by (simp add: raising_def)

lemma report_loop_events:
  assumes "\<forall>a ev. Inr (a, ev) \<in> set rounds \<longrightarrow> P ev"
  shows "\<exists>evs. log_of (report_loop via flag req rounds h log) = log @ map via evs
     \<and> (\<forall>ev\<in>set evs. P ev)"
  using assms
proof (induction via flag req rounds h log rule: report_loop.induct)
  case (1 via flag req h log)
  show ?case by (intro exI [of _ "[]"]) simp
next
  case (2 via flag req e rounds h log)
  show ?case by (intro exI [of _ "[]"]) simp
next
  case (3 via flag req a ev rounds h log)
  show ?case
  proof (cases "req log ev")
    case (Inl e)
    with 3 show ?thesis by (intro exI [of _ "[ev]"]) simp
  next
    case (Inr v)
    with 3 obtain evs where
      "log_of (report_loop via flag req rounds
          (if flag then set_pl_request_id h a v else h) (log @ [via ev])) =
        (log @ [via ev]) @ map via evs"
      and "\<forall>ev\<in>set evs. P ev"
      by force
    with 3 Inr show ?thesis by (intro exI [of _ "ev # evs"]) simp
  qed
qed

lemma rounds_run_map_sum:
  "rounds_run (map (map_sum id f) rounds) = map f (rounds_run rounds)"
  by (induction rounds rule: rounds_run.induct) simp_all

lemma rounds_error_map_sum:
  "rounds_error (map (map_sum id f) rounds) = rounds_error rounds"
  by (induction rounds rule: rounds_error.induct) simp_all



subsection \<open>What a run writes\<close>



lemma report_loop_refs:
  "info_refs (generation_info (objects (heap_of (report_loop via flag req rounds h log)) b)) =
     info_refs (generation_info (objects h b))"
proof (induction via flag req rounds h log rule: report_loop.induct)
  case (3 via flag req a ev rounds h log)
  then show ?case
    by (cases "req log ev") simp_all
qed simp_all





subsection \<open>The four methods\<close>




lemma triple_eq: "x = (fst x, heap_of x, log_of x)"
  by simp



lemma chat_generate_rounds:
  "chat_generate self req cmd chat_target t0 t1 messages stop h log =
     (case chat_target messages stop h of
        (Inl e, h1) \<Rightarrow> (Inl e, h1, log)
      | (Inr r, h1) \<Rightarrow>
          (case report_loop ApiRequest (return_pl_id self = Some True) req
                  (chat_rounds ''langchain.PromptLayerChatOpenAI'' self cmd
                     (fst (cmd messages stop)) stop (llm_output r) t0 t1 h1 (generations r))
                  h1 log of
             (Some e, h2, log') \<Rightarrow> (Inl e, h2, log')
           | (None, h2, log') \<Rightarrow> (Inr r, h2, log')))"
  by (simp add: chat_generate_def chat_generate_loop_rounds case_prod_beta
      split: sum.splits)





lemma chat_agenerate_rounds:
  "chat_agenerate self req cmd chat_target t0 t1 messages stop h log =
     (case chat_target messages stop h of
        (Inl e, h1) \<Rightarrow> (Inl e, h1, log)
      | (Inr r, h1) \<Rightarrow>
          (case report_loop ApiRequestAsync (return_pl_id self = Some True) req
                  (chat_rounds ''langchain.PromptLayerChatOpenAI.async'' self cmd
                     (fst (cmd messages stop)) stop (llm_output r) t0 t1 h1 (generations r))
                  h1 log of
             (Some e, h2, log') \<Rightarrow> (Inl e, h2, log')
           | (None, h2, log') \<Rightarrow> (Inr r, h2, log')))"
  by (simp add: chat_agenerate_def chat_agenerate_loop_rounds case_prod_beta
      split: sum.splits)







lemma llm_generate_rounds:
  "llm_generate self req llm_target t0 t1 prompts stop h log =
     (case llm_target prompts stop h of
        (Inl e, h1) \<Rightarrow> (Inl e, h1, log)
      | (Inr r, h1) \<Rightarrow>
          (case report_loop ApiRequest (return_pl_id self = Some True) req
                  (llm_rounds ''langchain.PromptLayerOpenAI'' self (llm_output r) t0 t1 h1
                     prompts 0 (generations r))
                  h1 log of
             (Some e, h2, log') \<Rightarrow> (Inl e, h2, log')
           | (None, h2, log') \<Rightarrow> (Inr r, h2, log')))"
  by (simp add: llm_generate_def llm_generate_loop_rounds case_prod_beta
      split: sum.splits)





lemma llm_agenerate_rounds:
  "llm_agenerate self req llm_target t0 t1 prompts stop h log =
     (case llm_target prompts stop h of
        (Inl e, h1) \<Rightarrow> (Inl e, h1, log)
      | (Inr r, h1) \<Rightarrow>
          (case report_loop ApiRequestAsync (return_pl_id self = Some True) req
                  (llm_rounds ''langchain.PromptLayerOpenAI.async'' self (llm_output r) t0 t1 h1
                     prompts 0 (generations r))
                  h1 log of
             (Some e, h2, log') \<Rightarrow> (Inl e, h2, log')
           | (None, h2, log') \<Rightarrow> (Inr r, h2, log')))"
  by (simp add: llm_agenerate_def llm_agenerate_loop_rounds case_prod_beta
      split: sum.splits)





subsection \<open>The logs of the four methods\<close>

lemma reported_events_sync: "reported_events (map ApiRequest evs) = evs"
  by (induction evs) simp_all

lemma reported_events_async:
  "reported_events (map (\<lambda>ev. ApiRequestAsync (f ev)) evs) = map f evs"
  by (induction evs) simp_all

lemma reported_events_async_plain: "reported_events (map ApiRequestAsync evs) = evs"
  by (induction evs) simp_all

lemma chat_rounds_metadata:
  "Inr (a, ev) \<in> set (chat_rounds name self cmd md stop out t0 t1 h as) \<Longrightarrow>
   ev_metadata ev = project_metadata (pl_project self)"
  by (auto simp: chat_rounds_def chat_event_def split: sum.splits)

lemma llm_rounds_metadata:
  "Inr (a, ev) \<in> set (llm_rounds name self out t0 t1 h prompts i gens) \<Longrightarrow>
   ev_metadata ev = project_metadata (pl_project self)"
  by (induction prompts arbitrary: i)
    (auto simp: llm_event_def split: sum.splits if_splits)

lemma chat_rounds_async:
  "chat_rounds (name @ ''.async'') self cmd md stop out t0 t1 h as =
     map (map_sum id (\<lambda>x. (fst x, as_async (snd x))))
       (chat_rounds name self cmd md stop out t0 t1 h as)"
  by (simp add: chat_rounds_def chat_event_def as_async_def split: sum.splits)

lemma llm_rounds_async:
  "llm_rounds (name @ ''.async'') self out t0 t1 h prompts i gens =
     map (map_sum id (\<lambda>x. (fst x, as_async (snd x))))
       (llm_rounds name self out t0 t1 h prompts i gens)"
  by (induction prompts arbitrary: i)
    (simp_all add: llm_event_def as_async_def split: sum.splits)

lemma chat_generate_log:
  "log_of (chat_generate self req cmd chat_target t0 t1 messages stop h log) =
     (case chat_target messages stop h of
        (Inl e, h1) \<Rightarrow> log
      | (Inr r, h1) \<Rightarrow>
          log_of (report_loop ApiRequest (return_pl_id self = Some True) req
            (chat_rounds ''langchain.PromptLayerChatOpenAI'' self cmd
               (fst (cmd messages stop)) stop (llm_output r) t0 t1 h1 (generations r))
            h1 log))"
  by (simp add: chat_generate_rounds split: prod.splits sum.splits option.splits)

lemma chat_agenerate_log:
  "log_of (chat_agenerate self req cmd chat_target t0 t1 messages stop h log) =
     (case chat_target messages stop h of
        (Inl e, h1) \<Rightarrow> log
      | (Inr r, h1) \<Rightarrow>
          log_of (report_loop ApiRequestAsync (return_pl_id self = Some True) req
            (chat_rounds ''langchain.PromptLayerChatOpenAI.async'' self cmd
               (fst (cmd messages stop)) stop (llm_output r) t0 t1 h1 (generations r))
            h1 log))"
  by (simp add: chat_agenerate_rounds split: prod.splits sum.splits option.splits)

lemma llm_generate_log:
  "log_of (llm_generate self req llm_target t0 t1 prompts stop h log) =
     (case llm_target prompts stop h of
        (Inl e, h1) \<Rightarrow> log
      | (Inr r, h1) \<Rightarrow>
          log_of (report_loop ApiRequest (return_pl_id self = Some True) req
            (llm_rounds ''langchain.PromptLayerOpenAI'' self (llm_output r) t0 t1 h1
               prompts 0 (generations r))
            h1 log))"
  by (simp add: llm_generate_rounds split: prod.splits sum.splits option.splits)

lemma llm_agenerate_log:
  "log_of (llm_agenerate self req llm_target t0 t1 prompts stop h log) =
     (case llm_target prompts stop h of
        (Inl e, h1) \<Rightarrow> log
      | (Inr r, h1) \<Rightarrow>
          log_of (report_loop ApiRequestAsync (return_pl_id self = Some True) req
            (llm_rounds ''langchain.PromptLayerOpenAI.async'' self (llm_output r) t0 t1 h1
               prompts 0 (generations r))
            h1 log))"
  by (simp add: llm_agenerate_rounds split: prod.splits sum.splits option.splits)

lemma rounds_logs_related:
  "log_of (report_loop ApiRequest flag (returning rs) rounds h log) =
     log @ map ApiRequest (map snd (rounds_run rounds))
   \<and> log_of (report_loop ApiRequestAsync flag (returning ra)
       (map (map_sum id (\<lambda>x. (fst x, as_async (snd x)))) rounds) h log_a) =
     log_a @ map (\<lambda>ev. ApiRequestAsync (as_async ev)) (map snd (rounds_run rounds))"
  by (simp add: report_loop_returning rounds_run_map_sum comp_def)

lemma chat_events_related:
  "\<exists>evs.
     log_of (chat_generate self (returning rs) cmd chat_target t0 t1 messages stop h log) =
       log @ map ApiRequest evs
   \<and> log_of (chat_agenerate self (returning ra) cmd chat_target t0 t1 messages stop h log_a) =
       log_a @ map (\<lambda>ev. ApiRequestAsync (as_async ev)) evs"
proof (cases "chat_target messages stop h")
  case (Pair res h1)
  show ?thesis
  proof (cases res)
    case (Inl e)
    with Pair show ?thesis
      by (intro exI [of _ "[]"]) (simp add: chat_generate_log chat_agenerate_log)
  next
    case (Inr r)
    let ?rounds = "chat_rounds ''langchain.PromptLayerChatOpenAI'' self cmd
        (fst (cmd messages stop)) stop (llm_output r) t0 t1 h1 (generations r)"
    from rounds_logs_related [of "return_pl_id self = Some True" rs ?rounds h1 log ra log_a]
      chat_rounds_async [of "''langchain.PromptLayerChatOpenAI''" self cmd
        "fst (cmd messages stop)" stop "llm_output r" t0 t1 h1 "generations r"]
      Pair Inr
    show ?thesis
      by (intro exI [of _ "map snd (rounds_run ?rounds)"])
        (simp add: chat_generate_log chat_agenerate_log)
  qed
qed

lemma llm_events_related:
  "\<exists>evs.
     log_of (llm_generate self (returning rs) llm_target t0 t1 prompts stop h log) =
       log @ map ApiRequest evs
   \<and> log_of (llm_agenerate self (returning ra) llm_target t0 t1 prompts stop h log_a) =
       log_a @ map (\<lambda>ev. ApiRequestAsync (as_async ev)) evs"
proof (cases "llm_target prompts stop h")
  case (Pair res h1)
  show ?thesis
  proof (cases res)
    case (Inl e)
    with Pair show ?thesis
      by (intro exI [of _ "[]"]) (simp add: llm_generate_log llm_agenerate_log)
  next
    case (Inr r)
    let ?rounds = "llm_rounds ''langchain.PromptLayerOpenAI'' self (llm_output r) t0 t1 h1
        prompts 0 (generations r)"
    from rounds_logs_related [of "return_pl_id self = Some True" rs ?rounds h1 log ra log_a]
      llm_rounds_async [of "''langchain.PromptLayerOpenAI''" self "llm_output r" t0 t1 h1
        prompts 0 "generations r"]
      Pair Inr
    show ?thesis
      by (intro exI [of _ "map snd (rounds_run ?rounds)"])
        (simp add: llm_generate_log llm_agenerate_log)
  qed
qed

lemma logged_events_metadata:
  assumes "\<forall>a ev. Inr (a, ev) \<in> set rounds \<longrightarrow>
      ev_metadata ev = project_metadata (pl_project self)"
    and "via = ApiRequest \<or> via = ApiRequestAsync"
  shows "\<forall>ev \<in> set (reported_events (drop (length log)
        (log_of (report_loop via flag req rounds h log)))).
      ev_metadata ev = project_metadata (pl_project self)"
proof -
  from report_loop_events [OF assms(1), of via flag req h log] obtain evs where
    "log_of (report_loop via flag req rounds h log) = log @ map via evs"
    and "\<forall>ev\<in>set evs. ev_metadata ev = project_metadata (pl_project self)"
    by blast
  with assms(2) show ?thesis
    by (auto simp: reported_events_sync reported_events_async_plain)
qed

lemma project_metadata_strings:
  "string_mapping_or_null (project_metadata project) \<longleftrightarrow>
     (\<exists>s. project = Some s \<and> s \<noteq> [])"
  by (cases project) (simp_all add: string_mapping_or_null_def valid_metadata_def
      project_metadata_def)

section \<open>The wrapping layer\<close>

text \<open>
  C9: when the wrapped target raises, the wrapping layer raises that same exception,
  unchanged, and the log is as it was: no reporting call is made.  This holds of the
  generic proxy, blocking and awaited, and of each of the four adapter methods, where
  the wrapped call is \<^verbatim>\<open>super()._generate\<close> or \<^verbatim>\<open>super()._agenerate\<close>, for every reporting
  helper; the adapters leave the store as the wrapped call left it.
\<close>

theorem target_exception_propagates:
  "(target args kwargs = Inl e \<longrightarrow>
      proxy_call name provider extra_tags return_request_id req target t0 t1 args kwargs log =
        (Inl e, log)
    \<and> proxy_call_async name provider extra_tags return_request_id req target t0 t1 args kwargs
        log = (Inl e, log))
   \<and> (chat_target messages stop h = (Inl e, h1) \<longrightarrow>
      chat_generate self req cmd chat_target t0 t1 messages stop h log = (Inl e, h1, log)
    \<and> chat_agenerate self req cmd chat_target t0 t1 messages stop h log = (Inl e, h1, log))
   \<and> (llm_target prompts stop k = (Inl e, k1) \<longrightarrow>
      llm_generate self req llm_target t0 t1 prompts stop k log = (Inl e, k1, log)
    \<and> llm_agenerate self req llm_target t0 t1 prompts stop k log = (Inl e, k1, log))"
  by (simp add: proxy_call_def proxy_call_async_def chat_generate_def chat_agenerate_def
      llm_generate_def llm_agenerate_def)

theorem target_exception_propagates_witness:
  "failing_callable (PList []) (PDict []) = Inl (ForeignError ''RateLimitError'')
   \<and> proxy_call ''openai.Completion.create'' ''openai'' PNone False (returning reporter_ok)
        failing_callable (PFloat 1 0) (PFloat 2 0) (PList []) (PDict []) [] =
      (Inl (ForeignError ''RateLimitError''), [])
   \<and> failing_chat_target example_messages PNone example_chat_heap =
      (Inl (ForeignError ''RateLimitError''), example_chat_heap)
   \<and> chat_generate example_self (returning reporter_ok) example_cmd failing_chat_target
        (PFloat 1 0) (PFloat 2 0) example_messages PNone example_chat_heap [] =
      (Inl (ForeignError ''RateLimitError''), example_chat_heap, [])
   \<and> chat_agenerate example_self (returning reporter_ok) example_cmd failing_chat_target
        (PFloat 1 0) (PFloat 2 0) example_messages PNone example_chat_heap [] =
      (Inl (ForeignError ''RateLimitError''), example_chat_heap, [])
   \<and> failing_llm_target [''Q''] PNone example_llm_heap =
      (Inl (ForeignError ''RateLimitError''), example_llm_heap)
   \<and> llm_generate example_self (returning reporter_ok) failing_llm_target
        (PFloat 1 0) (PFloat 2 0) [''Q''] PNone example_llm_heap [] =
      (Inl (ForeignError ''RateLimitError''), example_llm_heap, [])
   \<and> llm_agenerate example_self (returning reporter_ok) failing_llm_target
        (PFloat 1 0) (PFloat 2 0) [''Q''] PNone example_llm_heap [] =
      (Inl (ForeignError ''RateLimitError''), example_llm_heap, [])"
  using target_exception_propagates [of failing_callable "PList []" "PDict []"
      "ForeignError ''RateLimitError''" "''openai.Completion.create''" "''openai''" PNone False
      "returning reporter_ok" "PFloat 1 0" "PFloat 2 0" "[]" failing_chat_target
      example_messages PNone example_chat_heap example_chat_heap example_self example_cmd
      failing_llm_target "[''Q'']" example_llm_heap example_llm_heap]
  by (simp add: failing_callable_def failing_chat_target_def failing_llm_target_def)






text \<open>
  C3, as the claim states it, fails: for the same invocation the synchronous method
  reports the function name \<^verbatim>\<open>langchain.PromptLayerChatOpenAI\<close> and the asynchronous
  method \<^verbatim>\<open>langchain.PromptLayerChatOpenAI.async\<close>.
\<close>

theorem async_function_name_counterexample:
  "map ev_function_name (reported_events (log_of
      (chat_generate example_self (returning reporter_ok) example_cmd example_chat_target
         (PFloat 1 0) (PFloat 2 0) example_messages PNone example_chat_heap []))) =
     [''langchain.PromptLayerChatOpenAI'']
   \<and> map ev_function_name (reported_events (log_of
      (chat_agenerate example_self (returning reporter_ok) example_cmd example_chat_target
         (PFloat 1 0) (PFloat 2 0) example_messages PNone example_chat_heap []))) =
     [''langchain.PromptLayerChatOpenAI.async'']"
  by (simp add: chat_generate_def chat_agenerate_def example_chat_target_def
      example_chat_result_def example_cmd_def returning_def info_getitem_def Let_def)

text \<open>
  C3, amended: for the same adapter, wrapped call, store, clock readings and
  arguments, the asynchronous method hands \<^verbatim>\<open>promptlayer_api_request_async\<close> the same
  events, in the same order, as the synchronous method hands
  \<^verbatim>\<open>promptlayer_api_request\<close>, every field equal except the function name, which carries
  the suffix \<^verbatim>\<open>.async\<close>.  This holds for any two reporters and any two initial logs,
  also when a method raises.
\<close>

theorem sync_async_events:
  "(\<exists>evs.
      log_of (chat_generate self (returning reporter) cmd chat_target t0 t1 messages stop h
        log) = log @ map ApiRequest evs
    \<and> log_of (chat_agenerate self (returning reporter_async) cmd chat_target t0 t1 messages
        stop h log_a) = log_a @ map (\<lambda>ev. ApiRequestAsync (as_async ev)) evs)
   \<and> (\<exists>evs.
      log_of (llm_generate self (returning reporter) llm_target t0 t1 prompts stop k log) =
        log @ map ApiRequest evs
    \<and> log_of (llm_agenerate self (returning reporter_async) llm_target t0 t1 prompts stop k
        log_a) = log_a @ map (\<lambda>ev. ApiRequestAsync (as_async ev)) evs)"
  using chat_events_related [of self reporter cmd chat_target t0 t1 messages stop h log
      reporter_async log_a]
    llm_events_related [of self reporter llm_target t0 t1 prompts stop k log
      reporter_async log_a]
  by blast

theorem sync_async_events_witness:
  "log_of (chat_generate example_self (returning reporter_ok) example_cmd example_chat_target
      (PFloat 1 0) (PFloat 2 0) example_messages PNone example_chat_heap []) =
     [ApiRequest (chat_event ''langchain.PromptLayerChatOpenAI'' example_self example_cmd
        (PList example_messages) PNone (PDict [(PStr ''total_tokens'', PInt 7)])
        (PFloat 1 0) (PFloat 2 0) (message example_chat_generation))]
   \<and> log_of (chat_agenerate example_self (returning reporter_down) example_cmd
      example_chat_target (PFloat 1 0) (PFloat 2 0) example_messages PNone
      example_chat_heap []) =
     [ApiRequestAsync (as_async
        (chat_event ''langchain.PromptLayerChatOpenAI'' example_self example_cmd
           (PList example_messages) PNone (PDict [(PStr ''total_tokens'', PInt 7)])
           (PFloat 1 0) (PFloat 2 0) (message example_chat_generation)))]"
  using sync_async_events [of example_self reporter_ok example_cmd example_chat_target
      "PFloat 1 0" "PFloat 2 0" example_messages PNone example_chat_heap "[]" reporter_down
      "[]" example_llm_target "[''Q'']" example_llm_heap]
  by (simp add: chat_generate_def chat_agenerate_def example_chat_target_def
      example_chat_result_def example_chat_heap_def example_cmd_def chat_event_def
      as_async_def returning_def info_getitem_def Let_def)

text \<open>
  Every event that one of the four methods reports carries the metadata built from
  \<^verbatim>\<open>pl_project\<close>, whatever the reporting helper does.
\<close>

lemma chat_generate_metadata:
  "\<forall>ev \<in> set (reported_events (drop (length log)
      (log_of (chat_generate self req cmd chat_target t0 t1 messages stop h log)))).
    ev_metadata ev = project_metadata (pl_project self)"
proof (cases "chat_target messages stop h")
  case (Pair res h1)
  show ?thesis
  proof (cases res)
    case (Inl e)
    with Pair show ?thesis by (simp add: chat_generate_log)
  next
    case (Inr r)
    let ?rounds = "chat_rounds ''langchain.PromptLayerChatOpenAI'' self cmd
        (fst (cmd messages stop)) stop (llm_output r) t0 t1 h1 (generations r)"
    have "\<forall>a ev. Inr (a, ev) \<in> set ?rounds \<longrightarrow>
        ev_metadata ev = project_metadata (pl_project self)"
      by (blast intro: chat_rounds_metadata)
    from logged_events_metadata [OF this, of ApiRequest log "return_pl_id self = Some True"
        req h1] Pair Inr
    show ?thesis by (simp add: chat_generate_log)
  qed
qed

lemma chat_agenerate_metadata:
  "\<forall>ev \<in> set (reported_events (drop (length log)
      (log_of (chat_agenerate self req cmd chat_target t0 t1 messages stop h log)))).
    ev_metadata ev = project_metadata (pl_project self)"
proof (cases "chat_target messages stop h")
  case (Pair res h1)
  show ?thesis
  proof (cases res)
    case (Inl e)
    with Pair show ?thesis by (simp add: chat_agenerate_log)
  next
    case (Inr r)
    let ?rounds = "chat_rounds ''langchain.PromptLayerChatOpenAI.async'' self cmd
        (fst (cmd messages stop)) stop (llm_output r) t0 t1 h1 (generations r)"
    have "\<forall>a ev. Inr (a, ev) \<in> set ?rounds \<longrightarrow>
        ev_metadata ev = project_metadata (pl_project self)"
      by (blast intro: chat_rounds_metadata)
    from logged_events_metadata [OF this, of ApiRequestAsync log "return_pl_id self = Some True"
        req h1] Pair Inr
    show ?thesis by (simp add: chat_agenerate_log)
  qed
qed

lemma llm_generate_metadata:
  "\<forall>ev \<in> set (reported_events (drop (length log)
      (log_of (llm_generate self req llm_target t0 t1 prompts stop k log)))).
    ev_metadata ev = project_metadata (pl_project self)"
proof (cases "llm_target prompts stop k")
  case (Pair res k1)
  show ?thesis
  proof (cases res)
    case (Inl e)
    with Pair show ?thesis by (simp add: llm_generate_log)
  next
    case (Inr r)
    let ?rounds = "llm_rounds ''langchain.PromptLayerOpenAI'' self (llm_output r) t0 t1 k1
        prompts 0 (generations r)"
    have "\<forall>a ev. Inr (a, ev) \<in> set ?rounds \<longrightarrow>
        ev_metadata ev = project_metadata (pl_project self)"
      by (blast intro: llm_rounds_metadata)
    from logged_events_metadata [OF this, of ApiRequest log "return_pl_id self = Some True"
        req k1] Pair Inr
    show ?thesis by (simp add: llm_generate_log)
  qed
qed

lemma llm_agenerate_metadata:
  "\<forall>ev \<in> set (reported_events (drop (length log)
      (log_of (llm_agenerate self req llm_target t0 t1 prompts stop k log)))).
    ev_metadata ev = project_metadata (pl_project self)"
proof (cases "llm_target prompts stop k")
  case (Pair res k1)
  show ?thesis
  proof (cases res)
    case (Inl e)
    with Pair show ?thesis by (simp add: llm_agenerate_log)
  next
    case (Inr r)
    let ?rounds = "llm_rounds ''langchain.PromptLayerOpenAI.async'' self (llm_output r) t0 t1 k1
        prompts 0 (generations r)"
    have "\<forall>a ev. Inr (a, ev) \<in> set ?rounds \<longrightarrow>
        ev_metadata ev = project_metadata (pl_project self)"
      by (blast intro: llm_rounds_metadata)
    from logged_events_metadata [OF this, of ApiRequestAsync log "return_pl_id self = Some True"
        req k1] Pair Inr
    show ?thesis by (simp add: llm_agenerate_log)
  qed
qed

text \<open>
  C4, as the claim states it, fails: an adapter whose \<^verbatim>\<open>pl_project\<close> is \<^verbatim>\<open>None\<close> reports
  the metadata \<^verbatim>\<open>{"project": None}\<close>, a dictionary with a value that is not a string.
\<close>

theorem project_metadata_null_counterexample:
  "map ev_metadata (reported_events (log_of
      (chat_generate example_self (returning reporter_ok) example_cmd example_chat_target
         (PFloat 1 0) (PFloat 2 0) example_messages PNone example_chat_heap []))) =
     [PDict [(PStr ''project'', PNone)]]
   \<and> \<not> string_mapping_or_null (PDict [(PStr ''project'', PNone)])"
  by (simp add: chat_generate_def example_chat_target_def example_chat_result_def
      example_cmd_def example_self_def project_metadata_def returning_def info_getitem_def
      string_mapping_or_null_def valid_metadata_def Let_def)

text \<open>
  C4, amended: every event the four adapter methods report carries the metadata
  \<^verbatim>\<open>{"project": v}\<close>, where \<open>v\<close> is \<^verbatim>\<open>pl_project\<close> when that is a non-empty string and
  \<^verbatim>\<open>None\<close> otherwise.  It is a string-to-string mapping exactly when \<^verbatim>\<open>pl_project\<close> is a
  non-empty string, and it is never \<^verbatim>\<open>None\<close> itself.
\<close>

theorem event_metadata_is_project:
  "(\<forall>ev \<in> set (reported_events (drop (length log)
        (log_of (chat_generate self req cmd chat_target t0 t1 messages stop h log)))).
      ev_metadata ev = project_metadata (pl_project self))
   \<and> (\<forall>ev \<in> set (reported_events (drop (length log)
        (log_of (chat_agenerate self req cmd chat_target t0 t1 messages stop h log)))).
      ev_metadata ev = project_metadata (pl_project self))
   \<and> (\<forall>ev \<in> set (reported_events (drop (length log)
        (log_of (llm_generate self req llm_target t0 t1 prompts stop k log)))).
      ev_metadata ev = project_metadata (pl_project self))
   \<and> (\<forall>ev \<in> set (reported_events (drop (length log)
        (log_of (llm_agenerate self req llm_target t0 t1 prompts stop k log)))).
      ev_metadata ev = project_metadata (pl_project self))
   \<and> (string_mapping_or_null (project_metadata (pl_project self)) \<longleftrightarrow>
        (\<exists>s. pl_project self = Some s \<and> s \<noteq> []))"
  using chat_generate_metadata [of log self req cmd chat_target t0 t1 messages stop h]
    chat_agenerate_metadata [of log self req cmd chat_target t0 t1 messages stop h]
    llm_generate_metadata [of log self req llm_target t0 t1 prompts stop k]
    llm_agenerate_metadata [of log self req llm_target t0 t1 prompts stop k]
    project_metadata_strings [of "pl_project self"]
  by blast

theorem event_metadata_is_project_witness:
  "map ev_metadata (reported_events (drop (length [TrackScore (PStr ''req'') (PInt 3)])
      (log_of (chat_generate example_self_plain (returning reporter_ok) example_cmd
         example_chat_target (PFloat 1 0) (PFloat 2 0) example_messages PNone
         example_chat_heap [TrackScore (PStr ''req'') (PInt 3)])))) =
     [PDict [(PStr ''project'', PStr ''billing'')]]
   \<and> pl_project example_self_plain = Some ''billing''
   \<and> string_mapping_or_null (PDict [(PStr ''project'', PStr ''billing'')])"
  using event_metadata_is_project [of "[TrackScore (PStr ''req'') (PInt 3)]"
      example_self_plain "returning reporter_ok" example_cmd example_chat_target
      "PFloat 1 0" "PFloat 2 0" example_messages PNone example_chat_heap example_llm_target
      "[''Q'']" example_llm_heap]
  by (simp add: chat_generate_def example_chat_target_def example_chat_result_def
      example_cmd_def example_self_plain_def project_metadata_def returning_def
      info_getitem_def string_mapping_or_null_def valid_metadata_def Let_def)




end
